theory Spec2Isabelle
  imports Complex_Main "HOL-Library.Char_ord" "HOL-Library.List_Lexorder" "HOL-Library.AList"
    "HOL-Library.Multiset"
begin

section \<open>Python values used by the service\<close>

text \<open>
  The service (\<^verbatim>\<open>src/backend/app.py\<close>) is a Flask application over one table.
  Strings are modelled as \<^typ>\<open>string\<close>; a \<^typ>\<open>char\<close> stands for a code point
  below 256. Python integers are \<^typ>\<open>int\<close>.
\<close>

subsection \<open>Strings: \<^verbatim>\<open>str.strip\<close>, \<^verbatim>\<open>str.lower\<close>, \<^verbatim>\<open>str(i)\<close>\<close>

definition py_isspace :: "char \<Rightarrow> bool" where
  \<comment> \<open>the code points below 256 that Python treats as whitespace:
      TAB..CR, FS..US, SPACE, NEL and NBSP\<close>
  "py_isspace c =
     (let n = (of_char c :: nat)
      in (9 \<le> n \<and> n \<le> 13) \<or> (28 \<le> n \<and> n \<le> 32) \<or> n = 133 \<or> n = 160)"

definition strip :: "string \<Rightarrow> string" where
  "strip s = rev (dropWhile py_isspace (rev (dropWhile py_isspace s)))"

definition lower_char :: "char \<Rightarrow> char" where
  \<comment> \<open>A..Z and the upper-case letters of Latin-1 (all of 0xC0..0xDE but the
      multiplication sign 0xD7) move up by 32\<close>
  "lower_char c =
     (let n = (of_char c :: nat)
      in if (65 \<le> n \<and> n \<le> 90) \<or> (192 \<le> n \<and> n \<le> 222 \<and> n \<noteq> 215)
         then char_of (n + 32) else c)"

definition lower :: "string \<Rightarrow> string" where
  "lower s = map lower_char s"

fun str_of_nat :: "nat \<Rightarrow> string" where
  "str_of_nat n =
     (if n < 10 then [char_of (48 + n)]
      else str_of_nat (n div 10) @ [char_of (48 + n mod 10)])"

subsection \<open>\<^verbatim>\<open>int(s)\<close> on a string\<close>

datatype py_exn = ValueError | TypeError | AttributeError | OverflowError | KeyError

definition int_isspace :: "char \<Rightarrow> bool" where
  \<comment> \<open>the code points below 256 that \<^verbatim>\<open>int\<close> skips around the digits: TAB..CR, SPACE,
      NEL and NBSP, but not FS..US, which \<^verbatim>\<open>str.strip\<close> removes\<close>
  "int_isspace c =
     (let n = (of_char c :: nat)
      in (9 \<le> n \<and> n \<le> 13) \<or> n = 32 \<or> n = 133 \<or> n = 160)"

definition int_strip :: "string \<Rightarrow> string" where
  "int_strip s = rev (dropWhile int_isspace (rev (dropWhile int_isspace s)))"

definition int_max_str_digits :: nat where
  \<comment> \<open>the interpreter's default limit on the number of digits of the text of an
      integer\<close>
  "int_max_str_digits = 4300"

definition is_digit :: "char \<Rightarrow> bool" where
  "is_digit c = (let n = (of_char c :: nat) in 48 \<le> n \<and> n \<le> 57)"

definition digit_val :: "char \<Rightarrow> int" where
  "digit_val c = int (of_char c) - 48"

text \<open>
  After the first digit: more digits, each optionally preceded by a single underscore.
\<close>

fun digits_acc :: "int \<Rightarrow> string \<Rightarrow> int option" where
  "digits_acc acc [] = Some acc"
| "digits_acc acc [c] = (if is_digit c then Some (acc * 10 + digit_val c) else None)"
| "digits_acc acc (c # d # ds) =
     (if is_digit c then digits_acc (acc * 10 + digit_val c) (d # ds)
      else if c = CHR ''_'' \<and> is_digit d then digits_acc (acc * 10 + digit_val d) ds
      else None)"

definition parse_unsigned :: "string \<Rightarrow> int option" where
  \<comment> \<open>the digits after the sign; leading zeros count as digits for the limit,
      underscores do not\<close>
  "parse_unsigned s =
     (case s of [] \<Rightarrow> None
      | c # cs \<Rightarrow>
          if is_digit c \<and> length (filter is_digit s) \<le> int_max_str_digits
          then digits_acc (digit_val c) cs else None)"

definition py_int_str :: "string \<Rightarrow> int option" where
  \<comment> \<open>\<^verbatim>\<open>int(s)\<close> in base 10: surrounding whitespace is skipped, one sign is allowed;
      \<^const>\<open>None\<close> stands for ValueError\<close>
  "py_int_str s =
     (case int_strip s of [] \<Rightarrow> None
      | c # cs \<Rightarrow>
          if c = CHR ''-'' then map_option uminus (parse_unsigned cs)
          else if c = CHR ''+'' then parse_unsigned cs
          else parse_unsigned (c # cs))"

subsection \<open>JSON values\<close>

text \<open>
  A JSON number with a fraction or an exponent is a Python float. Only its exact value
  matters here (\<^verbatim>\<open>int(x)\<close> truncates it), so a finite float carries that value as a
  rational; the parser also produces the three non-finite floats.
\<close>

datatype pyfloat = Finite rat | PosInf | NegInf | NaN

datatype json =
    JNull
  | JBool bool
  | JInt int
  | JFloat pyfloat
  | JStr string
  | JList "json list"
  | JObj "(string \<times> json) list"

type_synonym pydict = "(string \<times> json) list"

text \<open>A dict is an association list read with \<^const>\<open>map_of\<close>.\<close>

fun truthy :: "json \<Rightarrow> bool" where
  "truthy JNull = False"
| "truthy (JBool b) = b"
| "truthy (JInt n) = (n \<noteq> 0)"
| "truthy (JFloat f) = (f \<noteq> Finite 0)"
| "truthy (JStr s) = (s \<noteq> [])"
| "truthy (JList xs) = (xs \<noteq> [])"
| "truthy (JObj kvs) = (kvs \<noteq> [])"

definition trunc_rat :: "rat \<Rightarrow> int" where
  "trunc_rat r = (if 0 \<le> r then \<lfloor>r\<rfloor> else \<lceil>r\<rceil>)"

fun py_int :: "json \<Rightarrow> py_exn + int" where
  "py_int JNull = Inl TypeError"
| "py_int (JBool b) = Inr (if b then 1 else 0)"
| "py_int (JInt n) = Inr n"
| "py_int (JFloat (Finite r)) = Inr (trunc_rat r)"
| "py_int (JFloat NaN) = Inl ValueError"
| "py_int (JFloat PosInf) = Inl OverflowError"
| "py_int (JFloat NegInf) = Inl OverflowError"
| "py_int (JStr s) = (case py_int_str s of None \<Rightarrow> Inl ValueError | Some n \<Rightarrow> Inr n)"
| "py_int (JList xs) = Inl TypeError"
| "py_int (JObj kvs) = Inl TypeError"

section \<open>The table and the responses\<close>

record movie =
  movie_id :: int
  title :: string
  genre :: string
  rating :: int
  image_url :: string
  created_at :: int

text \<open>
  \<^verbatim>\<open>Movie.to_dict\<close>: the JSON object of a row. \<^verbatim>\<open>createdAt\<close> is the timestamp's ISO
  text followed by Z in the source; the model keeps the timestamp.
\<close>

record movie_dict =
  d_id :: int
  d_title :: string
  d_genre :: string
  d_rating :: int
  d_imageUrl :: string
  d_createdAt :: int

definition to_dict :: "movie \<Rightarrow> movie_dict" where
  "to_dict m =
     \<lparr>d_id = movie_id m, d_title = title m, d_genre = genre m, d_rating = rating m,
      d_imageUrl = image_url m, d_createdAt = created_at m\<rparr>"

text \<open>
  The table: its rows in insertion order and the next value of the auto-increment key.
\<close>

record store =
  rows :: "movie list"
  next_id :: int

record new_movie =
  n_title :: string
  n_genre :: string
  n_rating :: int
  n_image_url :: string

definition add_commit :: "int \<Rightarrow> new_movie \<Rightarrow> store \<Rightarrow> movie \<times> store" where
  \<comment> \<open>\<^verbatim>\<open>db.session.add(m); db.session.commit()\<close>: the key and the default
      \<^verbatim>\<open>created_at\<close> (the clock reading \<open>now\<close>) are assigned on insertion\<close>
  "add_commit now n s =
     (let m = \<lparr>movie_id = next_id s, title = n_title n, genre = n_genre n,
                rating = n_rating n, image_url = n_image_url n, created_at = now\<rparr>
      in (m, \<lparr>rows = rows s @ [m], next_id = next_id s + 1\<rparr>))"

fun add_all :: "(nat \<Rightarrow> int) \<Rightarrow> nat \<Rightarrow> new_movie list \<Rightarrow> store \<Rightarrow> store" where
  \<comment> \<open>\<^verbatim>\<open>db.session.add_all(seeded); db.session.commit()\<close>; \<open>clock k\<close> is the clock
      reading when the \<open>k\<close>-th row of the batch is inserted\<close>
  "add_all clock k [] s = s"
| "add_all clock k (n # ns) s = add_all clock (Suc k) ns (snd (add_commit (clock k) n s))"

definition query_get :: "store \<Rightarrow> int \<Rightarrow> movie option" where
  \<comment> \<open>\<^verbatim>\<open>Movie.query.get(movie_id)\<close>\<close>
  "query_get s i = find (\<lambda>m. movie_id m = i) (rows s)"

definition count_rows :: "store \<Rightarrow> int" where
  \<comment> \<open>\<^verbatim>\<open>db.session.query(func.count(Movie.id)).scalar() or 0\<close>\<close>
  "count_rows s = int (length (rows s))"

text \<open>
  The text of a validation message is not modelled: each message of
  \<^verbatim>\<open>validate_movie_payload\<close> is a constructor.
\<close>

datatype field_error =
    Required
  | TitleEmpty
  | GenreEmpty
  | ImageUrlInvalid
  | RatingRange
  | RatingNotNumber

type_synonym errors = "(string \<times> field_error) list"

text \<open>
  \<^verbatim>\<open>jsonify(payload), status\<close> and \<^verbatim>\<open>json_error(message, status, details)\<close>. An
  exception that no handler catches is the \<^const>\<open>Inl\<close> of a handler's result.
\<close>

datatype 'a response =
    Response nat 'a
  | JsonError nat string "errors option"

definition json_error :: "string \<Rightarrow> nat \<Rightarrow> errors option \<Rightarrow> 'a response" where
  "json_error message status details = JsonError status message details"

section \<open>Seeding\<close>

definition genres :: "string list" where
  "genres = [''Action'', ''Comedy'', ''Drama'', ''Horror'', ''Sci-Fi'', ''Romance'',
             ''Thriller'', ''Animation'']"

definition seed_movie :: "int \<Rightarrow> new_movie" where
  \<comment> \<open>the body of the loop of \<^verbatim>\<open>seed_if_empty\<close>, for its index \<open>i \<ge> 1\<close>\<close>
  "seed_movie i =
     \<lparr>n_title = ''Movie '' @ str_of_nat (nat i),
      n_genre = genres ! nat ((i - 1) mod int (length genres)),
      n_rating = ((i - 1) mod 10) + 1,
      n_image_url = ''https://via.placeholder.com/300x200.png?text=Movie+'' @ str_of_nat (nat i)\<rparr>"

definition seed_if_empty :: "int \<Rightarrow> (nat \<Rightarrow> int) \<Rightarrow> store \<Rightarrow> store" where
  "seed_if_empty min_count clock s =
     (if count_rows s \<ge> min_count then s
      else add_all clock 0 (map seed_movie [1..min_count]) s)"

definition ensure_db_ready :: "(nat \<Rightarrow> int) \<Rightarrow> store \<Rightarrow> store" where
  \<comment> \<open>runs before every request; \<^verbatim>\<open>min_count\<close> has its default\<close>
  "ensure_db_ready clock s = seed_if_empty 30 clock s"

section \<open>Request parameters and payload validation\<close>

type_synonym args = "(string \<times> string) list"

definition parse_int_arg ::
    "args \<Rightarrow> string \<Rightarrow> int \<Rightarrow> int option \<Rightarrow> int option \<Rightarrow> string + int" where
  \<comment> \<open>\<^const>\<open>Inl\<close> carries the message of the ValueError\<close>
  "parse_int_arg request_args name default_v min_v max_v =
     (case map_of request_args name of
        None \<Rightarrow> Inr default_v
      | Some raw \<Rightarrow>
          if raw = [] then Inr default_v
          else (case py_int_str raw of
                  None \<Rightarrow> Inl (name @ '' must be an integer'')
                | Some v0 \<Rightarrow>
                    let v1 = (case min_v of Some lo \<Rightarrow> if v0 < lo then lo else v0 | None \<Rightarrow> v0);
                        v2 = (case max_v of Some hi \<Rightarrow> if v1 > hi then hi else v1 | None \<Rightarrow> v1)
                    in Inr v2))"

definition py_str_blank :: "json \<Rightarrow> bool" where
  \<comment> \<open>\<^verbatim>\<open>str(v).strip() == ""\<close>: the text of a value that is not a string (None, True,
      a number, a list, a dict) is never blank\<close>
  "py_str_blank v = (case v of JStr s \<Rightarrow> strip s = [] | _ \<Rightarrow> False)"

definition require :: "pydict \<Rightarrow> string \<Rightarrow> errors \<Rightarrow> errors" where
  "require data field errs =
     (case map_of data field of
        None \<Rightarrow> AList.update field Required errs
      | Some v \<Rightarrow> if py_str_blank v then AList.update field Required errs else errs)"

definition or_empty_strip :: "json option \<Rightarrow> py_exn + string" where
  \<comment> \<open>\<^verbatim>\<open>(data.get(field) or "").strip()\<close>: a truthy value that is not a string has no
      \<^verbatim>\<open>strip\<close>\<close>
  "or_empty_strip v =
     (case v of
        None \<Rightarrow> Inr (strip [])
      | Some j \<Rightarrow>
          if truthy j then (case j of JStr s \<Rightarrow> Inr (strip s) | _ \<Rightarrow> Inl AttributeError)
          else Inr (strip []))"

definition check_rating :: "pydict \<Rightarrow> errors \<Rightarrow> errors" where
  \<comment> \<open>the \<^verbatim>\<open>if "rating" in data\<close> block: every exception of \<^verbatim>\<open>int\<close> is caught\<close>
  "check_rating data errs =
     (case map_of data ''rating'' of
        None \<Rightarrow> errs
      | Some r \<Rightarrow>
          (case py_int r of
             Inr rating_int \<Rightarrow>
               if rating_int < 1 \<or> rating_int > 10
               then AList.update ''rating'' RatingRange errs else errs
           | Inl e \<Rightarrow> AList.update ''rating'' RatingNotNumber errs))"

definition validate_fields :: "pydict \<Rightarrow> bool \<Rightarrow> py_exn + errors" where
  "validate_fields data partial =
     (let e0 = (if \<not> partial
                then require data ''imageUrl''
                       (require data ''rating'' (require data ''genre'' (require data ''title'' [])))
                else [])
      in case or_empty_strip (map_of data ''title'') of Inl x \<Rightarrow> Inl x | Inr title_s \<Rightarrow>
         (case or_empty_strip (map_of data ''genre'') of Inl x \<Rightarrow> Inl x | Inr genre_s \<Rightarrow>
         (case or_empty_strip (map_of data ''imageUrl'') of Inl x \<Rightarrow> Inl x | Inr image_s \<Rightarrow>
           (let e1 = (if map_of data ''title'' \<noteq> None \<and> length title_s < 1
                      then AList.update ''title'' TitleEmpty e0 else e0);
                e2 = (if map_of data ''genre'' \<noteq> None \<and> length genre_s < 1
                      then AList.update ''genre'' GenreEmpty e1 else e1);
                e3 = (if map_of data ''imageUrl'' \<noteq> None \<and> length image_s < 5
                      then AList.update ''imageUrl'' ImageUrlInvalid e2 else e2)
            in Inr (check_rating data e3)))))"

definition validate_movie_payload :: "json \<Rightarrow> bool \<Rightarrow> py_exn + errors" where
  \<comment> \<open>a payload that is not a dict: \<^verbatim>\<open>field not in data\<close> is a TypeError on None, a
      bool or a number, and passes on a list or a string, where \<^verbatim>\<open>data.get\<close> then is
      an AttributeError; in partial mode \<^verbatim>\<open>data.get\<close> comes first\<close>
  "validate_movie_payload data partial =
     (case data of
        JObj d \<Rightarrow> validate_fields d partial
      | JList xs \<Rightarrow> Inl AttributeError
      | JStr s \<Rightarrow> Inl AttributeError
      | _ \<Rightarrow> if partial then Inl AttributeError else Inl TypeError)"

definition get_json_or_empty :: "json option \<Rightarrow> json" where
  \<comment> \<open>\<^verbatim>\<open>request.get_json(silent=True) or {}\<close>; \<^const>\<open>None\<close> is a body that is not JSON\<close>
  "get_json_or_empty body =
     (case body of None \<Rightarrow> JObj [] | Some v \<Rightarrow> if truthy v then v else JObj [])"

section \<open>The list query\<close>

text \<open>
  The database engine is a collaborator of the service, so what it decides is a
  parameter of the model: \<open>ilike eng v p\<close> is its answer to \<^verbatim>\<open>v ILIKE p\<close>, and
  \<open>collate eng\<close> maps a string to the sort key of the column collation, which decides
  both \<^verbatim>\<open>=\<close> and \<^verbatim>\<open>ORDER BY\<close> on strings. \<open>max_offset eng\<close> is the largest offset that
  the engine and its driver take; a query with a larger one raises \<open>offset_error eng\<close>,
  which no handler catches. The engine's limits on the length of a column are not
  modelled.
\<close>

record engine =
  ilike :: "string \<Rightarrow> string \<Rightarrow> bool"
  collate :: "string \<Rightarrow> string"
  max_offset :: int
  offset_error :: py_exn

fun like_match :: "string \<Rightarrow> string \<Rightarrow> bool" where
  \<comment> \<open>\<open>like_match p v\<close>: the pattern \<open>p\<close>, with the wildcards percent and underscore,
      matches all of \<open>v\<close>\<close>
  "like_match [] [] = True"
| "like_match [] (c # cs) = False"
| "like_match (p # ps) [] = (p = CHR ''%'' \<and> like_match ps [])"
| "like_match (p # ps) (c # cs) =
     (if p = CHR ''%'' then like_match ps (c # cs) \<or> like_match (p # ps) cs
      else (p = CHR ''_'' \<or> p = c) \<and> like_match ps cs)"

definition ref_engine :: engine where
  \<comment> \<open>an engine to evaluate the model with: a binary collation, ILIKE as LIKE on the
      lower-cased strings, and offsets of 64 bits with a sign, beyond which the
      driver raises OverflowError\<close>
  "ref_engine =
     \<lparr>ilike = (\<lambda>v p. like_match (lower p) (lower v)), collate = (\<lambda>s. s),
      max_offset = 9223372036854775807, offset_error = OverflowError\<rparr>"

datatype sort_col = ColTitle | ColGenre | ColRating | ColCreatedAt

definition sort_map :: "string \<Rightarrow> sort_col option" where
  "sort_map = [''title'' \<mapsto> ColTitle, ''genre'' \<mapsto> ColGenre, ''rating'' \<mapsto> ColRating,
               ''createdAt'' \<mapsto> ColCreatedAt]"

definition lex_le :: "'k::linorder \<Rightarrow> int \<Rightarrow> 'k \<Rightarrow> int \<Rightarrow> bool" where
  "lex_le k1 i1 k2 i2 = (k1 < k2 \<or> (k1 = k2 \<and> i1 \<le> i2))"

fun row_le :: "engine \<Rightarrow> sort_col \<Rightarrow> movie \<Rightarrow> movie \<Rightarrow> bool" where
  \<comment> \<open>\<open>a\<close> is not after \<open>b\<close> in \<^verbatim>\<open>ORDER BY col ASC, id ASC\<close>\<close>
  "row_le eng ColTitle a b =
     lex_le (collate eng (title a)) (movie_id a) (collate eng (title b)) (movie_id b)"
| "row_le eng ColGenre a b =
     lex_le (collate eng (genre a)) (movie_id a) (collate eng (genre b)) (movie_id b)"
| "row_le eng ColRating a b = lex_le (rating a) (movie_id a) (rating b) (movie_id b)"
| "row_le eng ColCreatedAt a b =
     lex_le (created_at a) (movie_id a) (created_at b) (movie_id b)"

fun insort_by :: "('a \<Rightarrow> 'a \<Rightarrow> bool) \<Rightarrow> 'a \<Rightarrow> 'a list \<Rightarrow> 'a list" where
  "insort_by le x [] = [x]"
| "insort_by le x (y # ys) = (if le x y then x # y # ys else y # insort_by le x ys)"

definition order_by :: "('a \<Rightarrow> 'a \<Rightarrow> bool) \<Rightarrow> 'a list \<Rightarrow> 'a list" where
  "order_by le xs = foldr (insort_by le) xs []"

definition arg_or :: "args \<Rightarrow> string \<Rightarrow> string \<Rightarrow> string" where
  \<comment> \<open>\<^verbatim>\<open>request.args.get(name) or default\<close>\<close>
  "arg_or request_args name default_v =
     (case map_of request_args name of
        None \<Rightarrow> default_v
      | Some v \<Rightarrow> if v = [] then default_v else v)"

definition direction_of :: "args \<Rightarrow> string" where
  "direction_of request_args = lower (strip (arg_or request_args ''dir'' ''desc''))"

definition sort_col_of :: "args \<Rightarrow> sort_col" where
  "sort_col_of request_args =
     (case sort_map (strip (arg_or request_args ''sort'' ''createdAt'')) of
        Some c \<Rightarrow> c
      | None \<Rightarrow> ColCreatedAt)"

definition build_query :: "engine \<Rightarrow> args \<Rightarrow> movie list \<Rightarrow> movie list" where
  \<comment> \<open>the query of \<^verbatim>\<open>list_movies\<close> before it is counted and paged: the filters,
      then the ordering\<close>
  "build_query eng request_args table =
     (let q = strip (arg_or request_args ''q'' []);
          genre_f = strip (arg_or request_args ''genre'' []);
          sort_c = sort_col_of request_args;
          direction = direction_of request_args;
          query0 = table;
          query1 = (if q \<noteq> []
                    then filter (\<lambda>m. ilike eng (title m) (''%'' @ q @ ''%'')) query0
                    else query0);
          query2 = (if genre_f \<noteq> []
                    then filter (\<lambda>m. collate eng (genre m) = collate eng genre_f) query1
                    else query1)
      in if direction = ''asc''
         then order_by (row_le eng sort_c) query2
         else order_by (\<lambda>a b. row_le eng sort_c b a) query2)"

record list_body =
  r_items :: "movie_dict list"
  r_total :: int
  r_page :: int
  r_pageSize :: int
  r_totalPages :: int

definition list_movies :: "engine \<Rightarrow> store \<Rightarrow> args \<Rightarrow> py_exn + list_body response" where
  \<comment> \<open>the count is taken first; the query of the page then raises when its offset is
      beyond what the engine takes\<close>
  "list_movies eng s request_args =
     (case parse_int_arg request_args ''page'' 1 (Some 1) None of
        Inl msg \<Rightarrow> Inr (json_error msg 400 None)
      | Inr page \<Rightarrow>
     (case parse_int_arg request_args ''pageSize'' 10 (Some 1) (Some 50) of
        Inl msg \<Rightarrow> Inr (json_error msg 400 None)
      | Inr page_size \<Rightarrow>
          (let query = build_query eng request_args (rows s);
               total = int (length query);
               offset = (page - 1) * page_size
           in if max_offset eng < offset then Inl (offset_error eng)
              else
                (let items = take (nat page_size) (drop (nat offset) query);
                     total_pages = (if page_size \<noteq> 0
                                    then (total + page_size - 1) div page_size else 1)
                 in Inr (Response 200
                      \<lparr>r_items = map to_dict items, r_total = total, r_page = page,
                       r_pageSize = page_size, r_totalPages = total_pages\<rparr>)))))"

section \<open>The handlers of single records\<close>

definition then_do :: "'e + 'a \<Rightarrow> ('a \<Rightarrow> 'e + 'b) \<Rightarrow> 'e + 'b" where
  "then_do r f = (case r of Inl x \<Rightarrow> Inl x | Inr v \<Rightarrow> f v)"

definition py_item :: "pydict \<Rightarrow> string \<Rightarrow> py_exn + json" where
  \<comment> \<open>\<^verbatim>\<open>data[key]\<close>\<close>
  "py_item d k = (case map_of d k of None \<Rightarrow> Inl KeyError | Some v \<Rightarrow> Inr v)"

definition py_strip :: "json \<Rightarrow> py_exn + string" where
  \<comment> \<open>\<^verbatim>\<open>v.strip()\<close>\<close>
  "py_strip v = (case v of JStr s \<Rightarrow> Inr (strip s) | _ \<Rightarrow> Inl AttributeError)"

definition get_movie :: "store \<Rightarrow> int \<Rightarrow> movie_dict response" where
  "get_movie s i =
     (case query_get s i of
        None \<Rightarrow> json_error ''Movie not found'' 404 None
      | Some m \<Rightarrow> Response 200 (to_dict m))"

definition build_movie :: "pydict \<Rightarrow> py_exn + new_movie" where
  \<comment> \<open>the constructor call of \<^verbatim>\<open>create_movie\<close>\<close>
  "build_movie d =
     then_do (then_do (py_item d ''title'') py_strip) (\<lambda>t.
     then_do (then_do (py_item d ''genre'') py_strip) (\<lambda>g.
     then_do (then_do (py_item d ''rating'') py_int) (\<lambda>r.
     then_do (then_do (py_item d ''imageUrl'') py_strip) (\<lambda>u.
       Inr \<lparr>n_title = t, n_genre = g, n_rating = r, n_image_url = u\<rparr>))))"

definition create_movie ::
    "int \<Rightarrow> store \<Rightarrow> json option \<Rightarrow> (py_exn + movie_dict response) \<times> store" where
  "create_movie now s body =
     (let data = get_json_or_empty body
      in case validate_movie_payload data False of
           Inl x \<Rightarrow> (Inl x, s)
         | Inr errs \<Rightarrow>
             if errs \<noteq> [] then (Inr (json_error ''Validation failed'' 400 (Some errs)), s)
             else (case data of
                     JObj d \<Rightarrow>
                       (case build_movie d of
                          Inl x \<Rightarrow> (Inl x, s)
                        | Inr n \<Rightarrow>
                            (let (m, s') = add_commit now n s
                             in (Inr (Response 201 (to_dict m)), s')))
                   | _ \<Rightarrow> (Inl TypeError, s)))"




definition delete_movie :: "store \<Rightarrow> int \<Rightarrow> string response \<times> store" where
  "delete_movie s i =
     (case query_get s i of
        None \<Rightarrow> (json_error ''Movie not found'' 404 None, s)
      | Some m \<Rightarrow>
          (Response 200 ''deleted'',
           s\<lparr>rows := filter (\<lambda>r. movie_id r \<noteq> movie_id m) (rows s)\<rparr>))"

section \<open>Statistics\<close>

text \<open>
  Of the payload of \<^verbatim>\<open>stats\<close> the model keeps the row count and the echoed page size;
  the average is a float and the grouping order is the engine's.
\<close>

record stats_body =
  s_total :: int
  s_currentPageSize :: int

definition stats :: "store \<Rightarrow> args \<Rightarrow> stats_body response" where
  "stats s request_args =
     (let total = count_rows s;
          page_size = (case parse_int_arg request_args ''pageSize'' 10 (Some 1) (Some 50) of
                         Inl msg \<Rightarrow> 10
                       | Inr v \<Rightarrow> v)
      in Response 200 \<lparr>s_total = total, s_currentPageSize = page_size\<rparr>)"

section \<open>The words of the properties\<close>

text \<open>
  The definitions of this section are not part of the service: they name what the
  properties below say about it.
\<close>

subsection \<open>Seeding\<close>

definition inserted_row ::
    "(nat \<Rightarrow> int) \<Rightarrow> nat \<Rightarrow> int \<Rightarrow> new_movie list \<Rightarrow> nat \<Rightarrow> movie" where
  \<comment> \<open>the row that \<^const>\<open>add_all\<close> makes of the \<open>j\<close>-th movie of a batch\<close>
  "inserted_row clock k first ns j =
     \<lparr>movie_id = first + int j, title = n_title (ns ! j), genre = n_genre (ns ! j),
      rating = n_rating (ns ! j), image_url = n_image_url (ns ! j),
      created_at = clock (k + j)\<rparr>"

subsection \<open>Integer parameters\<close>

definition malformed_int_arg :: "args \<Rightarrow> string \<Rightarrow> bool" where
  \<comment> \<open>the parameter is present, not empty and not the text of an integer\<close>
  "malformed_int_arg request_args name =
     (case map_of request_args name of
        None \<Rightarrow> False
      | Some raw \<Rightarrow> raw \<noteq> [] \<and> py_int_str raw = None)"

definition present_int :: "args \<Rightarrow> string \<Rightarrow> int option" where
  \<comment> \<open>the integer that the parameter is the text of, when it is present and is one\<close>
  "present_int request_args name =
     (case map_of request_args name of None \<Rightarrow> None | Some raw \<Rightarrow> py_int_str raw)"

definition effective_page :: "args \<Rightarrow> int" where
  "effective_page a = (case present_int a ''page'' of None \<Rightarrow> 1 | Some v \<Rightarrow> max 1 v)"

definition effective_page_size :: "args \<Rightarrow> int" where
  "effective_page_size a =
     (case present_int a ''pageSize'' of None \<Rightarrow> 10 | Some v \<Rightarrow> min 50 (max 1 v))"

subsection \<open>The rows that a list request asks for\<close>

definition matches :: "engine \<Rightarrow> args \<Rightarrow> movie \<Rightarrow> bool" where
  \<comment> \<open>the row passes the filters of the request: both, when both are given\<close>
  "matches eng a m =
     ((strip (arg_or a ''q'' []) = [] \<or>
       ilike eng (title m) (''%'' @ strip (arg_or a ''q'' []) @ ''%'')) \<and>
      (strip (arg_or a ''genre'' []) = [] \<or>
       collate eng (genre m) = collate eng (strip (arg_or a ''genre'' []))))"

definition matching :: "engine \<Rightarrow> args \<Rightarrow> store \<Rightarrow> movie list" where
  "matching eng a s = filter (matches eng a) (rows s)"

definition in_order :: "engine \<Rightarrow> args \<Rightarrow> movie \<Rightarrow> movie \<Rightarrow> bool" where
  \<comment> \<open>\<open>x\<close> may stand before \<open>y\<close> in the order that the request asks for\<close>
  "in_order eng a x y =
     (if direction_of a = ''asc'' then row_le eng (sort_col_of a) x y
      else row_le eng (sort_col_of a) y x)"

definition listed_ids :: "py_exn + list_body response \<Rightarrow> int list" where
  "listed_ids r =
     (case r of Inr (Response st body) \<Rightarrow> map d_id (r_items body) | _ \<Rightarrow> [])"

subsection \<open>The rules of validation\<close>

definition is_str :: "json \<Rightarrow> bool" where
  "is_str v = (case v of JStr s \<Rightarrow> True | _ \<Rightarrow> False)"

definition text_field_ok :: "pydict \<Rightarrow> string \<Rightarrow> bool" where
  \<comment> \<open>the field is absent, falsy or a string: \<^verbatim>\<open>(data.get(field) or "").strip()\<close>
      does not raise\<close>
  "text_field_ok d f =
     (case map_of d f of None \<Rightarrow> True | Some v \<Rightarrow> if truthy v then is_str v else True)"

definition text_fields_ok :: "pydict \<Rightarrow> bool" where
  "text_fields_ok d =
     (text_field_ok d ''title'' \<and> text_field_ok d ''genre'' \<and> text_field_ok d ''imageUrl'')"

definition trimmed :: "json \<Rightarrow> string" where
  \<comment> \<open>the trimmed text of a field that is a string; a falsy value counts as the empty
      string\<close>
  "trimmed v = (case v of JStr s \<Rightarrow> strip s | _ \<Rightarrow> [])"

definition rating_verdict :: "json \<Rightarrow> field_error option" where
  "rating_verdict r =
     (case py_int r of
        Inl e \<Rightarrow> Some RatingNotNumber
      | Inr n \<Rightarrow> if n < 1 \<or> 10 < n then Some RatingRange else None)"

definition field_verdict :: "pydict \<Rightarrow> bool \<Rightarrow> string \<Rightarrow> field_error option" where
  \<comment> \<open>the rules of validation, field by field: a required field that is missing, a
      text that is too short once trimmed, a rating that is no integer or out of
      range\<close>
  "field_verdict d partial f =
     (if f = ''title'' then
        (case map_of d f of
           None \<Rightarrow> if partial then None else Some Required
         | Some v \<Rightarrow> if length (trimmed v) < 1 then Some TitleEmpty else None)
      else if f = ''genre'' then
        (case map_of d f of
           None \<Rightarrow> if partial then None else Some Required
         | Some v \<Rightarrow> if length (trimmed v) < 1 then Some GenreEmpty else None)
      else if f = ''imageUrl'' then
        (case map_of d f of
           None \<Rightarrow> if partial then None else Some Required
         | Some v \<Rightarrow> if length (trimmed v) < 5 then Some ImageUrlInvalid else None)
      else if f = ''rating'' then
        (case map_of d f of
           None \<Rightarrow> if partial then None else Some Required
         | Some v \<Rightarrow> rating_verdict v)
      else None)"


section \<open>Concrete stores and requests\<close>

text \<open>
  Inputs on which the model is evaluated below.
\<close>

definition empty_store :: store where
  "empty_store = \<lparr>rows = [], next_id = 1\<rparr>"

definition one_movie_store :: store where
  "one_movie_store =
     \<lparr>rows = [\<lparr>movie_id = 1, title = ''Alien'', genre = ''Horror'', rating = 9,
               image_url = ''http://x/alien.png'', created_at = 0\<rparr>],
      next_id = 2\<rparr>"

definition two_movie_store :: store where
  "two_movie_store =
     \<lparr>rows = [\<lparr>movie_id = 1, title = ''Heat'', genre = ''Action'', rating = 3,
               image_url = ''http://x/heat.png'', created_at = 100\<rparr>,
              \<lparr>movie_id = 2, title = ''Alien'', genre = ''Horror'', rating = 9,
               image_url = ''http://x/alien.png'', created_at = 200\<rparr>],
      next_id = 3\<rparr>"

definition seeded_store :: store where
  "seeded_store = seed_if_empty 30 (\<lambda>k. int k) empty_store"

definition args_bad_page :: args where
  "args_bad_page = [(''page'', ''abc''), (''pageSize'', ''5'')]"

definition args_bad_page_size :: args where
  "args_bad_page_size = [(''page'', ''2''), (''pageSize'', ''7.5'')]"

definition args_out_of_range :: args where
  "args_out_of_range = [(''page'', ''0''), (''pageSize'', ''999'')]"

definition args_fs_page :: args where
  \<comment> \<open>the digits 12 between the separators US and FS\<close>
  "args_fs_page = [(''page'', [CHR 0x1F, CHR ''1'', CHR ''2'', CHR 0x1C])]"

definition args_fs_page_size :: args where
  "args_fs_page_size = [(''pageSize'', [CHR 0x1C, CHR ''7''])]"

definition args_long_page :: args where
  \<comment> \<open>4301 digits: one more than the interpreter converts\<close>
  "args_long_page = [(''page'', replicate 4301 (CHR ''1''))]"

definition args_huge_page :: args where
  "args_huge_page = [(''page'', ''99999999999999999999'')]"

definition args_page2 :: args where
  "args_page2 = [(''page'', ''2''), (''pageSize'', ''10'')]"

definition args_page5 :: args where
  "args_page5 = [(''page'', ''5''), (''pageSize'', ''10'')]"

definition args_upper_asc :: args where
  "args_upper_asc = [(''sort'', ''rating''), (''dir'', ''ASC'')]"

definition args_desc :: args where
  "args_desc = [(''sort'', ''rating''), (''dir'', ''desc'')]"

definition args_no_dir :: args where
  "args_no_dir = [(''sort'', ''rating'')]"

definition args_other_dir :: args where
  "args_other_dir = [(''sort'', ''rating''), (''dir'', ''down'')]"

definition payload_rating_15 :: pydict where
  "payload_rating_15 =
     [(''title'', JStr ''Heat''), (''genre'', JStr ''Action''), (''rating'', JInt 15),
      (''imageUrl'', JStr ''http://x/heat.png'')]"

definition payload_rating_7_5 :: pydict where
  "payload_rating_7_5 =
     [(''title'', JStr ''Heat''), (''genre'', JStr ''Action''),
      (''rating'', JFloat (Finite (15 / 2))), (''imageUrl'', JStr ''http://x/heat.png'')]"

definition payload_rating_text :: pydict where
  "payload_rating_text = [(''rating'', JStr ''ten'')]"

definition payload_title_number :: pydict where
  "payload_title_number = [(''title'', JInt 5), (''rating'', JInt 15)]"

definition payload_rating_fs :: pydict where
  "payload_rating_fs = [(''rating'', JStr [CHR 0x1C, CHR ''7''])]"

definition payload_title_5_rating_15 :: pydict where
  "payload_title_5_rating_15 =
     [(''title'', JInt 5), (''genre'', JStr ''Action''), (''rating'', JInt 15),
      (''imageUrl'', JStr ''http://x/heat.png'')]"


definition body_rating_15 :: "json option" where
  "body_rating_15 = Some (JObj payload_rating_15)"

definition body_title_5_rating_15 :: "json option" where
  "body_title_5_rating_15 = Some (JObj payload_title_5_rating_15)"


section \<open>Properties of seeding\<close>

lemma inserted_row_shift:
  "map (inserted_row clock k first (n # ns)) [0..<Suc (length ns)] =
     inserted_row clock k first (n # ns) 0 #
     map (inserted_row clock (Suc k) (first + 1) ns) [0..<length ns]"
  by (simp add: map_upt_Suc inserted_row_def del: upt_Suc)

lemma add_all_rows:
  "rows (add_all clock k ns s) =
     rows s @ map (inserted_row clock k (next_id s) ns) [0..<length ns]"
proof (induction ns arbitrary: k s)
  case Nil
  then show ?case by simp
next
  case (Cons n ns)
  have "rows (add_all clock k (n # ns) s) =
        rows s @ inserted_row clock k (next_id s) (n # ns) 0 #
          map (inserted_row clock (Suc k) (next_id s + 1) ns) [0..<length ns]"
    by (simp add: Cons.IH add_commit_def Let_def inserted_row_def)
  then show ?case
    by (simp add: inserted_row_shift del: upt_Suc)
qed

lemma add_all_next_id: "next_id (add_all clock k ns s) = next_id s + int (length ns)"
  by (induction ns arbitrary: k s) (simp_all add: add_commit_def Let_def)

lemma seed_batch_nth: "j < 30 \<Longrightarrow> map seed_movie [1..30] ! j = seed_movie (int j + 1)"
  by (simp add: nth_upto add.commute)

lemma count_rows_nonneg: "0 \<le> count_rows s"
  by (simp add: count_rows_def)

lemma count_rows_seed:
  "count_rows (seed_if_empty 30 clock s) =
     (if count_rows s \<ge> 30 then count_rows s else count_rows s + 30)"
  by (simp add: seed_if_empty_def count_rows_def add_all_rows)

lemma seed_reaches_threshold: "30 \<le> count_rows (seed_if_empty 30 clock s)"
  using count_rows_nonneg [of s] by (simp add: count_rows_seed)

lemma seed_rows_nth:
  assumes "rows s = []" "j < 30"
  shows "rows (seed_if_empty 30 clock s) ! j =
           inserted_row clock 0 (next_id s) (map seed_movie [1..30]) j"
  using assms by (simp add: seed_if_empty_def count_rows_def add_all_rows del: upt_Suc)

text \<open>
  C2, as the code has it. Below the threshold, \<^const>\<open>seed_if_empty\<close> always inserts
  its whole batch of 30 placeholder records after the rows that are there: the count
  grows by 30, so it reaches 30 exactly only from the empty table.
\<close>

theorem seed_below_threshold_adds_30:
  "count_rows s < 30 \<Longrightarrow>
     count_rows (seed_if_empty 30 clock s) = count_rows s + 30 \<and>
     take (length (rows s)) (rows (seed_if_empty 30 clock s)) = rows s"
  by (simp add: count_rows_seed) (simp add: seed_if_empty_def count_rows_def add_all_rows)

theorem seed_below_threshold_adds_30_witness:
  "count_rows one_movie_store < 30 \<and>
   count_rows (seed_if_empty 30 (\<lambda>k. 0) one_movie_store) = 31 \<and>
   take 1 (rows (seed_if_empty 30 (\<lambda>k. 0) one_movie_store)) = rows one_movie_store"
proof -
  have c: "count_rows one_movie_store = 1"
    by (simp add: one_movie_store_def count_rows_def)
  have l: "length (rows one_movie_store) = 1"
    by (simp add: one_movie_store_def)
  from c have "count_rows one_movie_store < 30" by simp
  from this seed_below_threshold_adds_30 [OF this, of "\<lambda>k. 0"] c l
  show ?thesis by simp
qed

text \<open>
  C2, as the claim states it, fails on a table of one record: seeding leaves 31
  records, not 30.
\<close>

theorem seed_exactly_30_counterexample:
  "count_rows one_movie_store = 1 \<and>
   count_rows (seed_if_empty 30 (\<lambda>k. 0) one_movie_store) = 31 \<and>
   count_rows (seed_if_empty 30 (\<lambda>k. 0) one_movie_store) \<noteq> 30"
  by code_simp

text \<open>
  C3. Seeding is a no-op on a table of at least 30 records, so seeding twice is
  seeding once; from the empty table it leaves at least 30 records, and the \<open>i\<close>-th
  of them (counted from 1) has the rating \<open>((i - 1) mod 10) + 1\<close> and the genre at
  index \<open>(i - 1) mod 8\<close> of the list of eight genres.
\<close>

theorem seed_if_empty_noop_and_cycle:
  "(count_rows s \<ge> 30 \<longrightarrow> seed_if_empty 30 clock s = s) \<and>
   seed_if_empty 30 clock' (seed_if_empty 30 clock s) = seed_if_empty 30 clock s \<and>
   (rows s = [] \<longrightarrow>
      count_rows (seed_if_empty 30 clock s) \<ge> 30 \<and>
      (\<forall>i. 1 \<le> i \<and> i \<le> 30 \<longrightarrow>
         rating (rows (seed_if_empty 30 clock s) ! nat (i - 1)) = ((i - 1) mod 10) + 1 \<and>
         genre (rows (seed_if_empty 30 clock s) ! nat (i - 1)) = genres ! nat ((i - 1) mod 8))) \<and>
   length genres = 8"
proof (intro conjI impI allI)
  assume "30 \<le> count_rows s"
  then show "seed_if_empty 30 clock s = s" by (simp add: seed_if_empty_def)
next
  have "30 \<le> count_rows (seed_if_empty 30 clock s)"
    by (rule seed_reaches_threshold)
  then show "seed_if_empty 30 clock' (seed_if_empty 30 clock s) = seed_if_empty 30 clock s"
    by (simp add: seed_if_empty_def)
next
  assume "rows s = []"
  then show "30 \<le> count_rows (seed_if_empty 30 clock s)"
    by (simp add: seed_reaches_threshold)
next
  fix i :: int
  assume e: "rows s = []" and i: "1 \<le> i \<and> i \<le> 30"
  from i have j: "nat (i - 1) < 30" by linarith
  have n: "map seed_movie [1..30] ! nat (i - 1) = seed_movie i"
    using i seed_batch_nth [OF j] by simp
  show "rating (rows (seed_if_empty 30 clock s) ! nat (i - 1)) = (i - 1) mod 10 + 1"
    by (simp add: seed_rows_nth [OF e j] inserted_row_def n) (simp add: seed_movie_def)
  show "genre (rows (seed_if_empty 30 clock s) ! nat (i - 1)) = genres ! nat ((i - 1) mod 8)"
    by (simp add: seed_rows_nth [OF e j] inserted_row_def n) (simp add: seed_movie_def genres_def)
next
  show "length genres = 8" by (simp add: genres_def)
qed

theorem seed_if_empty_noop_and_cycle_witness:
  "count_rows (seed_if_empty 30 (\<lambda>k. 0) empty_store) \<ge> 30 \<and>
   seed_if_empty 30 (\<lambda>k. 1) (seed_if_empty 30 (\<lambda>k. 0) empty_store) =
     seed_if_empty 30 (\<lambda>k. 0) empty_store \<and>
   rows empty_store = [] \<and> (1::int) \<le> 13 \<and> (13::int) \<le> 30 \<and>
   rating (rows (seed_if_empty 30 (\<lambda>k. 0) empty_store) ! 12) = 3 \<and>
   genre (rows (seed_if_empty 30 (\<lambda>k. 0) empty_store) ! 12) = ''Sci-Fi''"
proof -
  let ?s = "seed_if_empty 30 (\<lambda>k. 0) empty_store"
  note empty = seed_if_empty_noop_and_cycle [of empty_store "\<lambda>k. 0" "\<lambda>k. 1"]
  note full = seed_if_empty_noop_and_cycle [of ?s "\<lambda>k. 1" "\<lambda>k. 1"]
  have e: "rows empty_store = []" by (simp add: empty_store_def)
  from empty e have c: "30 \<le> count_rows ?s" by simp
  from full c have n: "seed_if_empty 30 (\<lambda>k. 1) ?s = ?s" by simp
  from empty e have "\<forall>i. 1 \<le> i \<and> i \<le> 30 \<longrightarrow>
         rating (rows ?s ! nat (i - 1)) = ((i - 1) mod 10) + 1 \<and>
         genre (rows ?s ! nat (i - 1)) = genres ! nat ((i - 1) mod 8)"
    by simp
  from this [THEN spec, of 13]
  have r: "rating (rows ?s ! 12) = 3 \<and> genre (rows ?s ! 12) = ''Sci-Fi''"
    by (simp add: genres_def)
  from c n e r show ?thesis by simp
qed

section \<open>Properties of the integer parameters\<close>

lemma py_int_str_empty: "py_int_str [] = None"
  by (simp add: py_int_str_def int_strip_def)

lemma py_int_str_too_long:
  assumes "int_max_str_digits < n"
  shows "py_int_str (replicate n (CHR ''1'')) = None"
proof -
  have d: "is_digit (CHR ''1'')" "\<not> int_isspace (CHR ''1'')"
    by (simp_all add: is_digit_def int_isspace_def)
  from assms obtain m where n: "n = Suc m" by (cases n) simp_all
  have "dropWhile int_isspace (replicate k (CHR ''1'')) = replicate k (CHR ''1'')" for k
    using d(2) by (cases k) simp_all
  then have "int_strip (replicate n (CHR ''1'')) = replicate n (CHR ''1'')"
    by (simp add: int_strip_def)
  then have s: "int_strip (replicate n (CHR ''1'')) = CHR ''1'' # replicate m (CHR ''1'')"
    by (simp add: n)
  have "length (filter is_digit (CHR ''1'' # replicate m (CHR ''1''))) = n"
    using d(1) by (simp add: n)
  with assms have "parse_unsigned (CHR ''1'' # replicate m (CHR ''1'')) = None"
    by (simp add: parse_unsigned_def)
  then show ?thesis
    unfolding py_int_str_def s by simp
qed

lemma parse_int_arg_cases:
  "parse_int_arg a name d lo hi =
     (if malformed_int_arg a name then Inl (name @ '' must be an integer'')
      else Inr (case present_int a name of
                  None \<Rightarrow> d
                | Some v0 \<Rightarrow>
                    (let v1 = (case lo of Some l \<Rightarrow> if v0 < l then l else v0 | None \<Rightarrow> v0)
                     in case hi of Some h \<Rightarrow> if v1 > h then h else v1 | None \<Rightarrow> v1)))"
  by (auto simp: parse_int_arg_def malformed_int_arg_def present_int_def py_int_str_empty Let_def
           split: option.splits)

lemma parse_page:
  "parse_int_arg a ''page'' 1 (Some 1) None =
     (if malformed_int_arg a ''page'' then Inl ''page must be an integer''
      else Inr (case present_int a ''page'' of None \<Rightarrow> 1 | Some v \<Rightarrow> max 1 v))"
  by (simp add: parse_int_arg_cases max_def split: option.splits)

lemma parse_page_size:
  "parse_int_arg a ''pageSize'' 10 (Some 1) (Some 50) =
     (if malformed_int_arg a ''pageSize'' then Inl ''pageSize must be an integer''
      else Inr (case present_int a ''pageSize'' of None \<Rightarrow> 10 | Some v \<Rightarrow> min 50 (max 1 v)))"
  by (simp add: parse_int_arg_cases max_def min_def Let_def split: option.splits)

lemma effective_page_size_range:
  "1 \<le> effective_page_size a \<and> effective_page_size a \<le> 50"
  by (simp add: effective_page_size_def split: option.splits)

lemma effective_page_min: "1 \<le> effective_page a"
  by (simp add: effective_page_def split: option.splits)

lemma list_movies_malformed_page:
  "malformed_int_arg a ''page'' \<Longrightarrow>
     list_movies eng s a = Inr (JsonError 400 ''page must be an integer'' None)"
  by (simp add: list_movies_def parse_page json_error_def)

lemma list_movies_malformed_page_size:
  "\<not> malformed_int_arg a ''page'' \<Longrightarrow> malformed_int_arg a ''pageSize'' \<Longrightarrow>
     list_movies eng s a = Inr (JsonError 400 ''pageSize must be an integer'' None)"
  by (simp add: list_movies_def parse_page parse_page_size json_error_def)

lemma list_movies_well_formed:
  assumes "\<not> malformed_int_arg a ''page''" "\<not> malformed_int_arg a ''pageSize''"
  shows "list_movies eng s a =
     (if max_offset eng < (effective_page a - 1) * effective_page_size a
      then Inl (offset_error eng)
      else Inr (Response 200
        \<lparr>r_items = map to_dict
           (take (nat (effective_page_size a))
              (drop (nat ((effective_page a - 1) * effective_page_size a))
                 (build_query eng a (rows s)))),
         r_total = int (length (build_query eng a (rows s))),
         r_page = effective_page a,
         r_pageSize = effective_page_size a,
         r_totalPages = (int (length (build_query eng a (rows s))) + effective_page_size a - 1)
                          div effective_page_size a\<rparr>))"
proof -
  have "effective_page_size a \<noteq> 0" using effective_page_size_range [of a] by simp
  with assms show ?thesis
    by (simp add: list_movies_def parse_page parse_page_size Let_def
        effective_page_def [symmetric] effective_page_size_def [symmetric])
qed

text \<open>
  C8. A \<^verbatim>\<open>page\<close> or \<^verbatim>\<open>pageSize\<close> that is present, not empty and not the text of
  an integer fails the whole list request with status 400 and the message of the
  parameter, whatever the other parameters are. Otherwise no parameter is rejected:
  an absent or empty parameter takes its default, an integer out of range is clamped
  (\<^verbatim>\<open>page\<close> to at least 1, \<^verbatim>\<open>pageSize\<close> into 1..50), the handler never answers with
  an error response, every response carries the clamped values, and there is a
  response whenever the engine takes the offset.
\<close>

theorem list_movies_integer_params:
  "(malformed_int_arg a ''page'' \<longrightarrow>
      list_movies eng s a = Inr (JsonError 400 ''page must be an integer'' None)) \<and>
   (\<not> malformed_int_arg a ''page'' \<and> malformed_int_arg a ''pageSize'' \<longrightarrow>
      list_movies eng s a = Inr (JsonError 400 ''pageSize must be an integer'' None)) \<and>
   (\<not> malformed_int_arg a ''page'' \<and> \<not> malformed_int_arg a ''pageSize'' \<longrightarrow>
      parse_int_arg a ''page'' 1 (Some 1) None =
        Inr (case present_int a ''page'' of None \<Rightarrow> 1 | Some v \<Rightarrow> max 1 v) \<and>
      parse_int_arg a ''pageSize'' 10 (Some 1) (Some 50) =
        Inr (case present_int a ''pageSize'' of None \<Rightarrow> 10 | Some v \<Rightarrow> min 50 (max 1 v)) \<and>
      (\<forall>st msg det. list_movies eng s a \<noteq> Inr (JsonError st msg det)) \<and>
      (\<forall>st body. list_movies eng s a = Inr (Response st body) \<longrightarrow>
         st = 200 \<and>
         r_page body = (case present_int a ''page'' of None \<Rightarrow> 1 | Some v \<Rightarrow> max 1 v) \<and>
         r_pageSize body =
           (case present_int a ''pageSize'' of None \<Rightarrow> 10 | Some v \<Rightarrow> min 50 (max 1 v))) \<and>
      ((effective_page a - 1) * effective_page_size a \<le> max_offset eng \<longrightarrow>
         (\<exists>body. list_movies eng s a = Inr (Response 200 body))))"
proof (intro conjI impI)
  assume "malformed_int_arg a ''page''"
  then show "list_movies eng s a = Inr (JsonError 400 ''page must be an integer'' None)"
    by (rule list_movies_malformed_page)
next
  assume "\<not> malformed_int_arg a ''page'' \<and> malformed_int_arg a ''pageSize''"
  then show "list_movies eng s a = Inr (JsonError 400 ''pageSize must be an integer'' None)"
    by (simp add: list_movies_malformed_page_size)
next
  assume w: "\<not> malformed_int_arg a ''page'' \<and> \<not> malformed_int_arg a ''pageSize''"
  then have m1: "\<not> malformed_int_arg a ''page''" and m2: "\<not> malformed_int_arg a ''pageSize''"
    by simp_all
  note run = list_movies_well_formed [OF m1 m2, of eng s]
  from m1 show "parse_int_arg a ''page'' 1 (Some 1) None =
        Inr (case present_int a ''page'' of None \<Rightarrow> 1 | Some v \<Rightarrow> max 1 v)"
    by (simp add: parse_page)
  from m2 show "parse_int_arg a ''pageSize'' 10 (Some 1) (Some 50) =
        Inr (case present_int a ''pageSize'' of None \<Rightarrow> 10 | Some v \<Rightarrow> min 50 (max 1 v))"
    by (simp add: parse_page_size)
  show "\<forall>st msg det. list_movies eng s a \<noteq> Inr (JsonError st msg det)"
    by (simp add: run)
  show "\<forall>st body. list_movies eng s a = Inr (Response st body) \<longrightarrow>
         st = 200 \<and>
         r_page body = (case present_int a ''page'' of None \<Rightarrow> 1 | Some v \<Rightarrow> max 1 v) \<and>
         r_pageSize body =
           (case present_int a ''pageSize'' of None \<Rightarrow> 10 | Some v \<Rightarrow> min 50 (max 1 v))"
    by (auto simp: run effective_page_def effective_page_size_def split: if_splits)
  show "\<exists>body. list_movies eng s a = Inr (Response 200 body)"
    if "(effective_page a - 1) * effective_page_size a \<le> max_offset eng"
    using that by (simp add: run)
qed

theorem list_movies_integer_params_witness:
  "malformed_int_arg args_bad_page ''page'' \<and>
   list_movies ref_engine one_movie_store args_bad_page =
     Inr (JsonError 400 ''page must be an integer'' None) \<and>
   malformed_int_arg args_fs_page ''page'' \<and>
   list_movies ref_engine one_movie_store args_fs_page =
     Inr (JsonError 400 ''page must be an integer'' None) \<and>
   malformed_int_arg args_long_page ''page'' \<and>
   list_movies ref_engine one_movie_store args_long_page =
     Inr (JsonError 400 ''page must be an integer'' None) \<and>
   \<not> malformed_int_arg args_bad_page_size ''page'' \<and>
   malformed_int_arg args_bad_page_size ''pageSize'' \<and>
   list_movies ref_engine one_movie_store args_bad_page_size =
     Inr (JsonError 400 ''pageSize must be an integer'' None) \<and>
   \<not> malformed_int_arg args_out_of_range ''page'' \<and>
   \<not> malformed_int_arg args_out_of_range ''pageSize'' \<and>
   (effective_page args_out_of_range - 1) * effective_page_size args_out_of_range
     \<le> max_offset ref_engine \<and>
   (\<exists>body. list_movies ref_engine one_movie_store args_out_of_range = Inr (Response 200 body) \<and>
      r_page body = 1 \<and> r_pageSize body = 50)"
proof -
  have 1: "malformed_int_arg args_bad_page ''page''" by code_simp
  have f1: "malformed_int_arg args_fs_page ''page''" by code_simp
  have f2: "malformed_int_arg args_long_page ''page''"
    by (simp add: malformed_int_arg_def args_long_page_def py_int_str_too_long
        int_max_str_digits_def)
  have 2: "\<not> malformed_int_arg args_bad_page_size ''page''" by code_simp
  have 3: "malformed_int_arg args_bad_page_size ''pageSize''" by code_simp
  have 4: "\<not> malformed_int_arg args_out_of_range ''page''" by code_simp
  have 5: "\<not> malformed_int_arg args_out_of_range ''pageSize''" by code_simp
  have 6: "present_int args_out_of_range ''page'' = Some 0" by code_simp
  have 7: "present_int args_out_of_range ''pageSize'' = Some 999" by code_simp
  have 8: "(effective_page args_out_of_range - 1) * effective_page_size args_out_of_range
     \<le> max_offset ref_engine"
    by (simp add: effective_page_def effective_page_size_def 6 7 ref_engine_def)
  note a = list_movies_integer_params [of args_bad_page ref_engine one_movie_store]
  note b = list_movies_integer_params [of args_fs_page ref_engine one_movie_store]
  note l = list_movies_integer_params [of args_long_page ref_engine one_movie_store]
  note c = list_movies_integer_params [of args_bad_page_size ref_engine one_movie_store]
  note d = list_movies_integer_params [of args_out_of_range ref_engine one_movie_store]
  from a 1 have a': "list_movies ref_engine one_movie_store args_bad_page =
     Inr (JsonError 400 ''page must be an integer'' None)"
    by simp
  from b f1 have b': "list_movies ref_engine one_movie_store args_fs_page =
     Inr (JsonError 400 ''page must be an integer'' None)"
    by simp
  from l f2 have l': "list_movies ref_engine one_movie_store args_long_page =
     Inr (JsonError 400 ''page must be an integer'' None)"
    by simp
  from c 2 3 have c': "list_movies ref_engine one_movie_store args_bad_page_size =
     Inr (JsonError 400 ''pageSize must be an integer'' None)"
    by simp
  from d 4 5 8 obtain body where
    r: "list_movies ref_engine one_movie_store args_out_of_range = Inr (Response 200 body)"
    by blast
  with d 4 5 6 7 have "r_page body = 1 \<and> r_pageSize body = 50"
    by simp
  with r have d': "\<exists>body. list_movies ref_engine one_movie_store args_out_of_range =
      Inr (Response 200 body) \<and> r_page body = 1 \<and> r_pageSize body = 50"
    by blast
  from 1 a' f1 b' f2 l' 2 3 c' 4 5 8 d' show ?thesis by simp
qed

text \<open>
  C9. The statistics request always succeeds. The page size it echoes is what the
  list request parses \<^verbatim>\<open>pageSize\<close> to (default 10, clamped into 1..50), so it is the
  page size of every response of the list request; and it is 10 where that parse
  fails, on a \<^verbatim>\<open>pageSize\<close> that is not the text of an integer.
\<close>

theorem stats_page_size:
  "\<exists>body. stats s a = Response 200 body \<and>
      s_currentPageSize body =
        (case present_int a ''pageSize'' of None \<Rightarrow> 10 | Some v \<Rightarrow> min 50 (max 1 v)) \<and>
      (\<forall>v. parse_int_arg a ''pageSize'' 10 (Some 1) (Some 50) = Inr v \<longrightarrow>
         s_currentPageSize body = v) \<and>
      (\<forall>msg. parse_int_arg a ''pageSize'' 10 (Some 1) (Some 50) = Inl msg \<longrightarrow>
         s_currentPageSize body = 10) \<and>
      (malformed_int_arg a ''pageSize'' \<longrightarrow> s_currentPageSize body = 10) \<and>
      (\<forall>lb. list_movies eng s a = Inr (Response 200 lb) \<longrightarrow>
         r_pageSize lb = s_currentPageSize body)"
  by (auto simp: stats_def list_movies_def parse_page parse_page_size json_error_def Let_def
      malformed_int_arg_def present_int_def split: option.splits if_splits)

theorem stats_page_size_witness:
  "malformed_int_arg args_bad_page_size ''pageSize'' \<and>
   (\<exists>body. stats one_movie_store args_bad_page_size = Response 200 body \<and>
      s_currentPageSize body = 10) \<and>
   malformed_int_arg args_fs_page_size ''pageSize'' \<and>
   (\<exists>body. stats one_movie_store args_fs_page_size = Response 200 body \<and>
      s_currentPageSize body = 10) \<and>
   (\<exists>body lb. stats one_movie_store args_out_of_range = Response 200 body \<and>
      list_movies ref_engine one_movie_store args_out_of_range = Inr (Response 200 lb) \<and>
      r_pageSize lb = s_currentPageSize body \<and> s_currentPageSize body = 50)"
proof -
  have 1: "malformed_int_arg args_bad_page_size ''pageSize''" by code_simp
  have f1: "malformed_int_arg args_fs_page_size ''pageSize''" by code_simp
  have 2: "present_int args_out_of_range ''pageSize'' = Some 999" by code_simp
  have 4: "\<not> malformed_int_arg args_out_of_range ''page''" by code_simp
  have 5: "\<not> malformed_int_arg args_out_of_range ''pageSize''" by code_simp
  have 6: "present_int args_out_of_range ''page'' = Some 0" by code_simp
  have 3: "\<exists>lb. list_movies ref_engine one_movie_store args_out_of_range =
      Inr (Response 200 lb)"
    by (simp add: list_movies_well_formed [OF 4 5] effective_page_def 6 ref_engine_def)
  from stats_page_size [of one_movie_store args_bad_page_size ref_engine] 1
  have a: "\<exists>body. stats one_movie_store args_bad_page_size = Response 200 body \<and>
      s_currentPageSize body = 10"
    by blast
  from stats_page_size [of one_movie_store args_fs_page_size ref_engine] f1
  have a': "\<exists>body. stats one_movie_store args_fs_page_size = Response 200 body \<and>
      s_currentPageSize body = 10"
    by blast
  from stats_page_size [of one_movie_store args_out_of_range ref_engine] 2 3
  have b: "\<exists>body lb. stats one_movie_store args_out_of_range = Response 200 body \<and>
      list_movies ref_engine one_movie_store args_out_of_range = Inr (Response 200 lb) \<and>
      r_pageSize lb = s_currentPageSize body \<and> s_currentPageSize body = 50"
    by auto
  from 1 a f1 a' b show ?thesis by blast
qed

section \<open>Properties of the list query\<close>

lemma ceil_div:
  assumes "0 < (p::int)"
  shows "(t + p - 1) div p = \<lceil>real_of_int t / real_of_int p\<rceil>"
proof -
  define c where "c = (t + p - 1) div p"
  define r where "r = (t + p - 1) mod p"
  have split: "t + p - 1 = c * p + r" by (simp add: c_def r_def)
  have r: "0 \<le> r" "r < p" using assms by (simp_all add: r_def)
  have lo: "(c - 1) * p < t"
  proof -
    have "(c - 1) * p = c * p - p" by (simp add: algebra_simps)
    with split r show ?thesis by linarith
  qed
  have hi: "t \<le> c * p" using split r by linarith
  have pr: "0 < real_of_int p" using assms by simp
  have "real_of_int (c - 1) * real_of_int p < real_of_int t"
    using lo by (metis of_int_less_iff of_int_mult)
  then have 1: "real_of_int c - 1 < real_of_int t / real_of_int p"
    using pr by (simp add: pos_less_divide_eq)
  have "real_of_int t \<le> real_of_int c * real_of_int p"
    using hi by (metis of_int_le_iff of_int_mult)
  then have 2: "real_of_int t / real_of_int p \<le> real_of_int c"
    using pr by (simp add: pos_divide_le_eq)
  from 1 2 have "\<lceil>real_of_int t / real_of_int p\<rceil> = c"
    by (intro ceiling_unique) simp_all
  then show ?thesis by (simp add: c_def)
qed

lemma mset_insort_by: "mset (insort_by le x xs) = add_mset x (mset xs)"
  by (induction xs) auto

lemma mset_order_by: "mset (order_by le xs) = mset xs"
  by (induction xs) (simp_all add: order_by_def mset_insort_by)

lemma set_insort_by: "set (insort_by le x xs) = insert x (set xs)"
  by (induction xs) auto

lemma sorted_wrt_insort_by:
  assumes total: "\<And>x y. le x y \<or> le y x"
      and trans: "\<And>x y z. le x y \<Longrightarrow> le y z \<Longrightarrow> le x z"
      and "sorted_wrt le xs"
  shows "sorted_wrt le (insort_by le x xs)"
  using assms(3)
proof (induction xs)
  case Nil
  then show ?case by simp
next
  case (Cons y ys)
  show ?case
  proof (cases "le x y")
    case True
    with Cons.prems trans show ?thesis by auto
  next
    case False
    with total have "le y x" by blast
    with Cons False show ?thesis by (auto simp: set_insort_by)
  qed
qed

lemma sorted_wrt_order_by:
  assumes total: "\<And>x y. le x y \<or> le y x"
      and trans: "\<And>x y z. le x y \<Longrightarrow> le y z \<Longrightarrow> le x z"
  shows "sorted_wrt le (order_by le xs)"
proof (induction xs)
  case Nil
  then show ?case by (simp add: order_by_def)
next
  case (Cons x xs)
  have "order_by le (x # xs) = insort_by le x (order_by le xs)"
    by (simp add: order_by_def)
  with Cons show ?case
    using sorted_wrt_insort_by [of le, OF total trans] by simp
qed

lemma lex_le_total: "lex_le k1 i1 k2 i2 \<or> lex_le k2 i2 k1 i1"
  by (auto simp: lex_le_def)

lemma lex_le_trans: "lex_le k1 i1 k2 i2 \<Longrightarrow> lex_le k2 i2 k3 i3 \<Longrightarrow> lex_le k1 i1 k3 i3"
  by (auto simp: lex_le_def)

lemma row_le_total: "row_le eng c a b \<or> row_le eng c b a"
  by (cases c) (simp_all add: lex_le_total)

lemma row_le_trans: "row_le eng c x y \<Longrightarrow> row_le eng c y z \<Longrightarrow> row_le eng c x z"
  by (cases c) (auto intro: lex_le_trans)

lemma build_query_filter:
  "build_query eng a t =
     order_by (\<lambda>x y. in_order eng a x y) (filter (matches eng a) t)"
proof -
  have eq: "(\<lambda>x y. in_order eng a x y) =
      (if direction_of a = ''asc'' then row_le eng (sort_col_of a)
       else (\<lambda>x y. row_le eng (sort_col_of a) y x))"
    by (auto simp: in_order_def fun_eq_iff)
  have f: "filter (matches eng a) t =
     (let q = strip (arg_or a ''q'' []); g = strip (arg_or a ''genre'' []);
          q1 = (if q \<noteq> [] then filter (\<lambda>m. ilike eng (title m) (''%'' @ q @ ''%'')) t else t)
      in if g \<noteq> [] then filter (\<lambda>m. collate eng (genre m) = collate eng g) q1 else q1)"
    by (auto simp: matches_def Let_def intro: filter_cong)
  show ?thesis
    unfolding eq f by (simp add: build_query_def Let_def)
qed

lemma mset_build_query: "mset (build_query eng a t) = mset (filter (matches eng a) t)"
  by (simp add: build_query_filter mset_order_by)

lemma length_build_query: "length (build_query eng a t) = length (filter (matches eng a) t)"
  using mset_build_query [of eng a t] by (metis size_mset)

lemma in_order_total: "in_order eng a x y \<or> in_order eng a y x"
  using row_le_total [of eng "sort_col_of a"] by (auto simp: in_order_def)

lemma in_order_trans: "in_order eng a x y \<Longrightarrow> in_order eng a y z \<Longrightarrow> in_order eng a x z"
  using row_le_trans [of eng "sort_col_of a"] by (auto simp: in_order_def split: if_splits)

lemma sorted_build_query: "sorted_wrt (in_order eng a) (build_query eng a t)"
  unfolding build_query_filter
proof (rule sorted_wrt_order_by)
  show "in_order eng a x y \<or> in_order eng a y x" for x y
    by (rule in_order_total)
  show "in_order eng a x y \<Longrightarrow> in_order eng a y z \<Longrightarrow> in_order eng a x z" for x y z
    by (rule in_order_trans)
qed

lemma list_movies_ok:
  assumes "\<not> malformed_int_arg a ''page''" "\<not> malformed_int_arg a ''pageSize''"
      and "(effective_page a - 1) * effective_page_size a \<le> max_offset eng"
  shows "list_movies eng s a =
     Inr (Response 200
       \<lparr>r_items = map to_dict
          (take (nat (effective_page_size a))
             (drop (nat ((effective_page a - 1) * effective_page_size a))
                (build_query eng a (rows s)))),
        r_total = int (length (build_query eng a (rows s))),
        r_page = effective_page a,
        r_pageSize = effective_page_size a,
        r_totalPages = \<lceil>real_of_int (int (length (build_query eng a (rows s)))) /
                          real_of_int (effective_page_size a)\<rceil>\<rparr>)"
proof -
  have p: "0 < effective_page_size a" using effective_page_size_range [of a] by simp
  from assms(3) show ?thesis
    by (simp add: list_movies_well_formed [OF assms(1,2)] ceil_div [OF p])
qed

lemma list_movies_raises:
  assumes "\<not> malformed_int_arg a ''page''" "\<not> malformed_int_arg a ''pageSize''"
      and "max_offset eng < (effective_page a - 1) * effective_page_size a"
  shows "list_movies eng s a = Inl (offset_error eng)"
  using assms(3) by (simp add: list_movies_well_formed [OF assms(1,2)])

text \<open>
  C1. Take a list request whose integer parameters are well formed. Where the engine
  takes the offset \<open>(page - 1) * pageSize\<close>, the request succeeds: its query is the
  rows that pass the filters, in the order asked for; the items are the slice of it
  that starts at that offset and has at most \<open>pageSize\<close> records; \<open>total\<close> is the
  number of matching rows, counted before paging, and \<open>totalPages\<close> is the ceiling of
  \<open>total / pageSize\<close>. Where the offset is beyond what the engine takes, as for the
  page 99999999999999999999, the query of the page raises and there is no response
  with a slice: \<^verbatim>\<open>page\<close> has a minimum but, unlike \<^verbatim>\<open>pageSize\<close>, no maximum.
\<close>

theorem list_movies_page:
  assumes "\<not> malformed_int_arg a ''page''" "\<not> malformed_int_arg a ''pageSize''"
  shows "((effective_page a - 1) * effective_page_size a \<le> max_offset eng \<longrightarrow>
    (\<exists>body. list_movies eng s a = Inr (Response 200 body) \<and>
      r_page body = effective_page a \<and> r_pageSize body = effective_page_size a \<and>
      (let q = build_query eng a (rows s);
           off = nat ((r_page body - 1) * r_pageSize body)
       in mset q = mset (matching eng a s) \<and>
          sorted_wrt (in_order eng a) q \<and>
          r_items body = map to_dict (take (nat (r_pageSize body)) (drop off q)) \<and>
          length (r_items body) = min (nat (r_pageSize body)) (length q - off) \<and>
          (\<forall>k<length (r_items body). r_items body ! k = to_dict (q ! (off + k))) \<and>
          r_total body = int (length (matching eng a s)) \<and>
          r_totalPages body =
            \<lceil>real_of_int (r_total body) / real_of_int (r_pageSize body)\<rceil>))) \<and>
   (max_offset eng < (effective_page a - 1) * effective_page_size a \<longrightarrow>
      list_movies eng s a = Inl (offset_error eng))"
proof (intro conjI impI)
  assume "(effective_page a - 1) * effective_page_size a \<le> max_offset eng"
  note run = list_movies_ok [OF assms this, of s]
  show "\<exists>body. list_movies eng s a = Inr (Response 200 body) \<and>
      r_page body = effective_page a \<and> r_pageSize body = effective_page_size a \<and>
      (let q = build_query eng a (rows s);
           off = nat ((r_page body - 1) * r_pageSize body)
       in mset q = mset (matching eng a s) \<and>
          sorted_wrt (in_order eng a) q \<and>
          r_items body = map to_dict (take (nat (r_pageSize body)) (drop off q)) \<and>
          length (r_items body) = min (nat (r_pageSize body)) (length q - off) \<and>
          (\<forall>k<length (r_items body). r_items body ! k = to_dict (q ! (off + k))) \<and>
          r_total body = int (length (matching eng a s)) \<and>
          r_totalPages body =
            \<lceil>real_of_int (r_total body) / real_of_int (r_pageSize body)\<rceil>)"
    unfolding run Let_def
  proof (simp add: mset_build_query sorted_build_query length_build_query matching_def
        min.commute, intro allI impI)
    fix k
    assume "k < nat (effective_page_size a) \<and>
      k < length (filter (matches eng a) (rows s)) -
          nat ((effective_page a - 1) * effective_page_size a)"
    then have "nat ((effective_page a - 1) * effective_page_size a)
        \<le> length (build_query eng a (rows s))"
      unfolding length_build_query by linarith
    then show "to_dict
          (drop (nat ((effective_page a - 1) * effective_page_size a))
            (build_query eng a (rows s)) ! k) =
        to_dict
          (build_query eng a (rows s) !
           (nat ((effective_page a - 1) * effective_page_size a) + k))"
      by simp
  qed
next
  assume "max_offset eng < (effective_page a - 1) * effective_page_size a"
  then show "list_movies eng s a = Inl (offset_error eng)"
    by (rule list_movies_raises [OF assms])
qed

theorem list_movies_page_witness:
  "\<not> malformed_int_arg args_page2 ''page'' \<and> \<not> malformed_int_arg args_page2 ''pageSize'' \<and>
   (effective_page args_page2 - 1) * effective_page_size args_page2
     \<le> max_offset ref_engine \<and>
   (\<exists>body. list_movies ref_engine seeded_store args_page2 = Inr (Response 200 body) \<and>
      map d_id (r_items body) = [20, 19, 18, 17, 16, 15, 14, 13, 12, 11] \<and>
      r_total body = 30 \<and> r_totalPages body = 3) \<and>
   \<not> malformed_int_arg args_huge_page ''page'' \<and>
   \<not> malformed_int_arg args_huge_page ''pageSize'' \<and>
   max_offset ref_engine <
     (effective_page args_huge_page - 1) * effective_page_size args_huge_page \<and>
   list_movies ref_engine seeded_store args_huge_page = Inl OverflowError"
proof -
  have m1: "\<not> malformed_int_arg args_page2 ''page''" by code_simp
  have m2: "\<not> malformed_int_arg args_page2 ''pageSize''" by code_simp
  have p: "effective_page args_page2 = 2" by code_simp
  have z: "effective_page_size args_page2 = 10" by code_simp
  have o: "(effective_page args_page2 - 1) * effective_page_size args_page2
     \<le> max_offset ref_engine"
    by (simp add: p z ref_engine_def)
  have i: "map d_id (map to_dict (take 10 (drop 10
             (build_query ref_engine args_page2 (rows seeded_store))))) =
           [20, 19, 18, 17, 16, 15, 14, 13, 12, 11]"
    by code_simp
  have n: "length (matching ref_engine args_page2 seeded_store) = 30" by code_simp
  from list_movies_page [OF m1 m2, of ref_engine seeded_store] o
  obtain body where b: "list_movies ref_engine seeded_store args_page2 = Inr (Response 200 body)"
    and "r_page body = 2" and "r_pageSize body = 10"
    and "r_items body = map to_dict (take (nat (r_pageSize body))
           (drop (nat ((r_page body - 1) * r_pageSize body))
             (build_query ref_engine args_page2 (rows seeded_store))))"
    and "r_total body = int (length (matching ref_engine args_page2 seeded_store))"
    and "r_totalPages body = \<lceil>real_of_int (r_total body) / real_of_int (r_pageSize body)\<rceil>"
    unfolding Let_def p z by blast
  then have "map d_id (r_items body) = [20, 19, 18, 17, 16, 15, 14, 13, 12, 11] \<and>
      r_total body = 30 \<and> r_totalPages body = 3"
    using i n by simp
  with b have ok: "\<exists>body. list_movies ref_engine seeded_store args_page2 =
      Inr (Response 200 body) \<and>
      map d_id (r_items body) = [20, 19, 18, 17, 16, 15, 14, 13, 12, 11] \<and>
      r_total body = 30 \<and> r_totalPages body = 3"
    by simp
  have h1: "\<not> malformed_int_arg args_huge_page ''page''" by code_simp
  have h2: "\<not> malformed_int_arg args_huge_page ''pageSize''" by code_simp
  have hp: "effective_page args_huge_page = 99999999999999999999" by code_simp
  have hz: "effective_page_size args_huge_page = 10" by code_simp
  have ho: "max_offset ref_engine <
     (effective_page args_huge_page - 1) * effective_page_size args_huge_page"
    by (simp add: hp hz ref_engine_def)
  from list_movies_page [OF h1 h2, of ref_engine seeded_store] ho
  have bad: "list_movies ref_engine seeded_store args_huge_page = Inl OverflowError"
    by (simp add: ref_engine_def)
  from m1 m2 o ok h1 h2 ho bad show ?thesis by simp
qed

text \<open>
  C10. Take a list request whose integer parameters are well formed and whose page is
  beyond the last one: \<open>(page - 1) * pageSize\<close> is at least the number of matching
  rows. Where the engine takes that offset, the request succeeds with no items and
  with the \<open>total\<close> and \<open>totalPages\<close> of the whole matching set. Where the offset is
  beyond what the engine takes, as for the page 99999999999999999999, the request
  raises: such a page is an error.
\<close>

theorem list_movies_beyond_last_page:
  assumes "\<not> malformed_int_arg a ''page''" "\<not> malformed_int_arg a ''pageSize''"
      and "int (length (matching eng a s)) \<le> (effective_page a - 1) * effective_page_size a"
  shows "((effective_page a - 1) * effective_page_size a \<le> max_offset eng \<longrightarrow>
     list_movies eng s a =
       Inr (Response 200
         \<lparr>r_items = [],
          r_total = int (length (matching eng a s)),
          r_page = effective_page a,
          r_pageSize = effective_page_size a,
          r_totalPages = \<lceil>real_of_int (int (length (matching eng a s))) /
                            real_of_int (effective_page_size a)\<rceil>\<rparr>)) \<and>
   (max_offset eng < (effective_page a - 1) * effective_page_size a \<longrightarrow>
      list_movies eng s a = Inl (offset_error eng))"
proof (intro conjI impI)
  assume "(effective_page a - 1) * effective_page_size a \<le> max_offset eng"
  from list_movies_ok [OF assms(1,2) this, of s] assms(3)
  show "list_movies eng s a =
       Inr (Response 200
         \<lparr>r_items = [],
          r_total = int (length (matching eng a s)),
          r_page = effective_page a,
          r_pageSize = effective_page_size a,
          r_totalPages = \<lceil>real_of_int (int (length (matching eng a s))) /
                            real_of_int (effective_page_size a)\<rceil>\<rparr>)"
    by (simp add: length_build_query matching_def)
next
  assume "max_offset eng < (effective_page a - 1) * effective_page_size a"
  then show "list_movies eng s a = Inl (offset_error eng)"
    by (rule list_movies_raises [OF assms(1,2)])
qed

theorem list_movies_beyond_last_page_witness:
  "\<not> malformed_int_arg args_page5 ''page'' \<and> \<not> malformed_int_arg args_page5 ''pageSize'' \<and>
   int (length (matching ref_engine args_page5 seeded_store)) \<le>
     (effective_page args_page5 - 1) * effective_page_size args_page5 \<and>
   (effective_page args_page5 - 1) * effective_page_size args_page5
     \<le> max_offset ref_engine \<and>
   list_movies ref_engine seeded_store args_page5 =
     Inr (Response 200
       \<lparr>r_items = [], r_total = 30, r_page = 5, r_pageSize = 10, r_totalPages = 3\<rparr>) \<and>
   \<not> malformed_int_arg args_huge_page ''page'' \<and>
   \<not> malformed_int_arg args_huge_page ''pageSize'' \<and>
   int (length (matching ref_engine args_huge_page seeded_store)) \<le>
     (effective_page args_huge_page - 1) * effective_page_size args_huge_page \<and>
   max_offset ref_engine <
     (effective_page args_huge_page - 1) * effective_page_size args_huge_page \<and>
   list_movies ref_engine seeded_store args_huge_page = Inl OverflowError"
proof -
  have m1: "\<not> malformed_int_arg args_page5 ''page''" by code_simp
  have m2: "\<not> malformed_int_arg args_page5 ''pageSize''" by code_simp
  have p: "effective_page args_page5 = 5" by code_simp
  have z: "effective_page_size args_page5 = 10" by code_simp
  have n: "length (matching ref_engine args_page5 seeded_store) = 30" by code_simp
  have le: "int (length (matching ref_engine args_page5 seeded_store)) \<le>
     (effective_page args_page5 - 1) * effective_page_size args_page5"
    by (simp add: p z n)
  have o: "(effective_page args_page5 - 1) * effective_page_size args_page5
     \<le> max_offset ref_engine"
    by (simp add: p z ref_engine_def)
  from list_movies_beyond_last_page [OF m1 m2 le] o
  have ok: "list_movies ref_engine seeded_store args_page5 =
     Inr (Response 200
       \<lparr>r_items = [], r_total = 30, r_page = 5, r_pageSize = 10, r_totalPages = 3\<rparr>)"
    by (simp add: p z n)
  have h1: "\<not> malformed_int_arg args_huge_page ''page''" by code_simp
  have h2: "\<not> malformed_int_arg args_huge_page ''pageSize''" by code_simp
  have hp: "effective_page args_huge_page = 99999999999999999999" by code_simp
  have hz: "effective_page_size args_huge_page = 10" by code_simp
  have hn: "length (matching ref_engine args_huge_page seeded_store) = 30" by code_simp
  have hle: "int (length (matching ref_engine args_huge_page seeded_store)) \<le>
     (effective_page args_huge_page - 1) * effective_page_size args_huge_page"
    by (simp add: hp hz hn)
  have ho: "max_offset ref_engine <
     (effective_page args_huge_page - 1) * effective_page_size args_huge_page"
    by (simp add: hp hz ref_engine_def)
  from list_movies_beyond_last_page [OF h1 h2 hle] ho
  have bad: "list_movies ref_engine seeded_store args_huge_page = Inl OverflowError"
    by (simp add: ref_engine_def)
  from m1 m2 le o ok h1 h2 hle ho bad show ?thesis by simp
qed

lemma direction_asc_iff:
  "direction_of a = ''asc'' \<longleftrightarrow> (\<exists>v. map_of a ''dir'' = Some v \<and> lower (strip v) = ''asc'')"
proof -
  have d: "lower (strip ''desc'') \<noteq> ''asc''" by code_simp
  have e: "lower (strip []) \<noteq> ''asc''" by code_simp
  show ?thesis
    using d e by (auto simp: direction_of_def arg_or_def split: option.splits)
qed

lemma direction_default:
  "map_of a ''dir'' = None \<or> map_of a ''dir'' = Some [] \<Longrightarrow> direction_of a = ''desc''"
proof -
  have d: "lower (strip ''desc'') = ''desc''" by code_simp
  show "map_of a ''dir'' = None \<or> map_of a ''dir'' = Some [] \<Longrightarrow> direction_of a = ''desc''"
    using d by (auto simp: direction_of_def arg_or_def split: option.splits)
qed

text \<open>
  C7, as the code has it. The direction is the \<^verbatim>\<open>dir\<close> parameter trimmed and in
  lower case, \<^verbatim>\<open>desc\<close> when the parameter is absent or empty: the order is ascending
  exactly when that text is \<^verbatim>\<open>asc\<close> (so for ASC too), and descending otherwise, on the
  sort column and then on the key, both in the same direction.
\<close>

theorem list_movies_direction:
  "(direction_of a = ''asc'' \<longleftrightarrow>
      (\<exists>v. map_of a ''dir'' = Some v \<and> lower (strip v) = ''asc'')) \<and>
   (map_of a ''dir'' = None \<or> map_of a ''dir'' = Some [] \<longrightarrow> direction_of a = ''desc'') \<and>
   (direction_of a \<noteq> ''asc'' \<longrightarrow>
      sorted_wrt (\<lambda>x y. row_le eng (sort_col_of a) y x) (build_query eng a (rows s))) \<and>
   (direction_of a = ''asc'' \<longrightarrow>
      sorted_wrt (row_le eng (sort_col_of a)) (build_query eng a (rows s))) \<and>
   (\<forall>body. list_movies eng s a = Inr (Response 200 body) \<longrightarrow>
      (\<exists>page. r_items body = map to_dict page \<and> sorted_wrt (in_order eng a) page))"
proof (intro conjI impI allI)
  show "direction_of a = ''asc'' \<longleftrightarrow>
      (\<exists>v. map_of a ''dir'' = Some v \<and> lower (strip v) = ''asc'')"
    by (rule direction_asc_iff)
next
  assume "map_of a ''dir'' = None \<or> map_of a ''dir'' = Some []"
  then show "direction_of a = ''desc''" by (rule direction_default)
next
  assume "direction_of a \<noteq> ''asc''"
  then have "in_order eng a = (\<lambda>x y. row_le eng (sort_col_of a) y x)"
    by (simp add: in_order_def fun_eq_iff)
  with sorted_build_query [of eng a "rows s"]
  show "sorted_wrt (\<lambda>x y. row_le eng (sort_col_of a) y x) (build_query eng a (rows s))"
    by simp
next
  assume "direction_of a = ''asc''"
  then have "in_order eng a = row_le eng (sort_col_of a)"
    by (simp add: in_order_def fun_eq_iff)
  with sorted_build_query [of eng a "rows s"]
  show "sorted_wrt (row_le eng (sort_col_of a)) (build_query eng a (rows s))"
    by simp
next
  fix body
  assume r: "list_movies eng s a = Inr (Response 200 body)"
  have m1: "\<not> malformed_int_arg a ''page''"
    using r list_movies_malformed_page [of a eng s] by auto
  have m2: "\<not> malformed_int_arg a ''pageSize''"
    using r m1 list_movies_malformed_page_size [of a eng s] by auto
  from list_movies_well_formed [OF m1 m2, of eng s] r
  have "r_items body = map to_dict
          (take (nat (effective_page_size a))
             (drop (nat ((effective_page a - 1) * effective_page_size a))
                (build_query eng a (rows s))))"
    by (auto split: if_splits)
  moreover have "sorted_wrt (in_order eng a) (take (nat (effective_page_size a))
             (drop (nat ((effective_page a - 1) * effective_page_size a))
                (build_query eng a (rows s))))"
    by (intro sorted_wrt_take sorted_wrt_drop sorted_build_query)
  ultimately show "\<exists>page. r_items body = map to_dict page \<and> sorted_wrt (in_order eng a) page"
    by blast
qed

text \<open>
  C7, as the claim states it, fails for the value ASC, which is not the string asc
  and yet lists the records in ascending order of the rating.
\<close>

theorem list_movies_direction_counterexample:
  "''ASC'' \<noteq> ''asc'' \<and>
   map rating (rows two_movie_store) = [3, 9] \<and>
   listed_ids (list_movies ref_engine two_movie_store args_upper_asc) = [1, 2] \<and>
   listed_ids (list_movies ref_engine two_movie_store args_desc) = [2, 1]"
  by code_simp

theorem list_movies_direction_witness:
  "(\<exists>v. map_of args_upper_asc ''dir'' = Some v \<and> lower (strip v) = ''asc'') \<and>
   direction_of args_upper_asc = ''asc'' \<and>
   sorted_wrt (row_le ref_engine (sort_col_of args_upper_asc))
     (build_query ref_engine args_upper_asc (rows two_movie_store)) \<and>
   map_of args_no_dir ''dir'' = None \<and> direction_of args_no_dir = ''desc'' \<and>
   direction_of args_other_dir \<noteq> ''asc'' \<and>
   sorted_wrt (\<lambda>x y. row_le ref_engine (sort_col_of args_other_dir) y x)
     (build_query ref_engine args_other_dir (rows two_movie_store)) \<and>
   (\<exists>body page. list_movies ref_engine two_movie_store args_other_dir =
        Inr (Response 200 body) \<and>
      r_items body = map to_dict page \<and> sorted_wrt (in_order ref_engine args_other_dir) page)"
proof -
  have v: "map_of args_upper_asc ''dir'' = Some ''ASC'' \<and> lower (strip ''ASC'') = ''asc''"
    by code_simp
  then have 1: "\<exists>v. map_of args_upper_asc ''dir'' = Some v \<and> lower (strip v) = ''asc''"
    by blast
  have 2: "map_of args_no_dir ''dir'' = None" by code_simp
  have 3: "direction_of args_other_dir \<noteq> ''asc''" by code_simp
  have m1: "\<not> malformed_int_arg args_other_dir ''page''" by code_simp
  have m2: "\<not> malformed_int_arg args_other_dir ''pageSize''" by code_simp
  have "effective_page args_other_dir = 1" by code_simp
  then have "(effective_page args_other_dir - 1) * effective_page_size args_other_dir
     \<le> max_offset ref_engine"
    by (simp add: ref_engine_def)
  from list_movies_ok [OF m1 m2 this]
  have 4: "\<exists>body. list_movies ref_engine two_movie_store args_other_dir =
      Inr (Response 200 body)"
    by blast
  note a = list_movies_direction [of args_upper_asc ref_engine two_movie_store]
  note b = list_movies_direction [of args_no_dir ref_engine two_movie_store]
  note c = list_movies_direction [of args_other_dir ref_engine two_movie_store]
  from a 1 have a': "direction_of args_upper_asc = ''asc'' \<and>
     sorted_wrt (row_le ref_engine (sort_col_of args_upper_asc))
       (build_query ref_engine args_upper_asc (rows two_movie_store))"
    by blast
  from b 2 have b': "direction_of args_no_dir = ''desc''" by blast
  from c 3 4 have c': "sorted_wrt (\<lambda>x y. row_le ref_engine (sort_col_of args_other_dir) y x)
     (build_query ref_engine args_other_dir (rows two_movie_store)) \<and>
   (\<exists>body page. list_movies ref_engine two_movie_store args_other_dir =
        Inr (Response 200 body) \<and>
      r_items body = map to_dict page \<and> sorted_wrt (in_order ref_engine args_other_dir) page)"
    by blast
  from 1 2 3 a' b' c' show ?thesis by blast
qed

section \<open>Properties of validation\<close>

lemma strip_Nil: "strip [] = []"
  by (simp add: strip_def)

lemma or_empty_strip_ok:
  "text_field_ok d f \<Longrightarrow>
     or_empty_strip (map_of d f) =
       Inr (case map_of d f of None \<Rightarrow> [] | Some v \<Rightarrow> trimmed v)"
  by (auto simp: text_field_ok_def or_empty_strip_def is_str_def trimmed_def strip_Nil
      split: option.splits json.splits if_splits)

lemma or_empty_strip_raises:
  "\<not> text_field_ok d f \<Longrightarrow> or_empty_strip (map_of d f) = Inl AttributeError"
  by (auto simp: text_field_ok_def or_empty_strip_def is_str_def
      split: option.splits json.splits if_splits)

lemma strip_Nil_all_space:
  assumes "strip s = []"
  shows "\<forall>c\<in>set s. py_isspace c"
proof -
  from assms have "\<forall>c\<in>set (dropWhile py_isspace s). py_isspace c"
    by (simp add: strip_def dropWhile_eq_Nil_conv)
  then have "dropWhile py_isspace s = []"
    using hd_dropWhile [of py_isspace s] by (cases "dropWhile py_isspace s") auto
  then show ?thesis by (simp add: dropWhile_eq_Nil_conv)
qed

lemma int_strip_subset: "c \<in> set (int_strip s) \<Longrightarrow> c \<in> set s"
  by (auto simp: int_strip_def dest!: set_dropWhileD)

lemma space_starts_no_int:
  "py_isspace c \<Longrightarrow> c \<noteq> CHR ''-'' \<and> c \<noteq> CHR ''+'' \<and> \<not> is_digit c"
  by (auto simp: py_isspace_def is_digit_def Let_def)

lemma blank_py_int_str:
  assumes "strip s = []"
  shows "py_int_str s = None"
proof (cases "int_strip s")
  case Nil
  then show ?thesis by (simp add: py_int_str_def)
next
  case (Cons c cs)
  then have "c \<in> set s" using int_strip_subset [of c s] by simp
  with strip_Nil_all_space [OF assms] have "py_isspace c" by simp
  from space_starts_no_int [OF this] Cons show ?thesis
    by (simp add: py_int_str_def parse_unsigned_def)
qed

lemma blank_not_int: "py_str_blank v \<Longrightarrow> py_int v = Inl ValueError"
  by (auto simp: py_str_blank_def blank_py_int_str split: json.splits)

lemma blank_trimmed: "py_str_blank v \<Longrightarrow> trimmed v = []"
  by (auto simp: py_str_blank_def trimmed_def split: json.splits)

lemma map_of_require:
  "map_of (require d f errs) =
     (case map_of d f of
        None \<Rightarrow> (map_of errs)(f \<mapsto> Required)
      | Some v \<Rightarrow> if py_str_blank v then (map_of errs)(f \<mapsto> Required) else map_of errs)"
  by (simp add: require_def update_conv' split: option.splits)

lemma map_of_check_rating:
  "map_of (check_rating d errs) =
     (case map_of d ''rating'' of
        None \<Rightarrow> map_of errs
      | Some r \<Rightarrow> (case rating_verdict r of None \<Rightarrow> map_of errs
                   | Some e \<Rightarrow> (map_of errs)(''rating'' \<mapsto> e)))"
  by (simp add: check_rating_def rating_verdict_def update_conv' split: option.splits sum.splits)

lemma validate_fields_ok:
  assumes "text_fields_ok d"
  shows "validate_fields d partial =
     Inr (check_rating d
       (let e0 = (if \<not> partial
                then require d ''imageUrl''
                       (require d ''rating'' (require d ''genre'' (require d ''title'' [])))
                else []);
            e1 = (case map_of d ''title'' of None \<Rightarrow> e0
                  | Some v \<Rightarrow> if length (trimmed v) < 1
                              then AList.update ''title'' TitleEmpty e0 else e0);
            e2 = (case map_of d ''genre'' of None \<Rightarrow> e1
                  | Some v \<Rightarrow> if length (trimmed v) < 1
                              then AList.update ''genre'' GenreEmpty e1 else e1)
        in case map_of d ''imageUrl'' of None \<Rightarrow> e2
           | Some v \<Rightarrow> if length (trimmed v) < 5
                       then AList.update ''imageUrl'' ImageUrlInvalid e2 else e2))"
  using assms
  by (simp add: validate_fields_def text_fields_ok_def or_empty_strip_ok Let_def
      split: option.splits)

lemma verdict_title:
  assumes "text_fields_ok d" "validate_fields d partial = Inr errs"
  shows "map_of errs ''title'' = field_verdict d partial ''title''"
  using assms(2) unfolding validate_fields_ok [OF assms(1)]
  by (auto simp: Let_def map_of_check_rating map_of_require update_conv' field_verdict_def
      blank_trimmed split: option.splits if_splits)

lemma verdict_genre:
  assumes "text_fields_ok d" "validate_fields d partial = Inr errs"
  shows "map_of errs ''genre'' = field_verdict d partial ''genre''"
  using assms(2) unfolding validate_fields_ok [OF assms(1)]
  by (auto simp: Let_def map_of_check_rating map_of_require update_conv' field_verdict_def
      blank_trimmed split: option.splits if_splits)

lemma verdict_imageUrl:
  assumes "text_fields_ok d" "validate_fields d partial = Inr errs"
  shows "map_of errs ''imageUrl'' = field_verdict d partial ''imageUrl''"
  using assms(2) unfolding validate_fields_ok [OF assms(1)]
  by (auto simp: Let_def map_of_check_rating map_of_require update_conv' field_verdict_def
      blank_trimmed split: option.splits if_splits)

lemma verdict_rating:
  assumes "text_fields_ok d" "validate_fields d partial = Inr errs"
  shows "map_of errs ''rating'' = field_verdict d partial ''rating''"
  using assms(2) unfolding validate_fields_ok [OF assms(1)]
  by (auto simp: Let_def map_of_check_rating map_of_require update_conv' field_verdict_def
      rating_verdict_def blank_not_int split: option.splits if_splits sum.splits)

lemma verdict_other:
  assumes "text_fields_ok d" "validate_fields d partial = Inr errs"
    and "f \<noteq> ''title''" "f \<noteq> ''genre''" "f \<noteq> ''imageUrl''" "f \<noteq> ''rating''"
  shows "map_of errs f = None"
  using assms(2-) unfolding validate_fields_ok [OF assms(1)]
  by (auto simp: Let_def map_of_check_rating map_of_require update_conv'
      split: option.splits if_splits)

lemma validate_fields_raises:
  assumes "\<not> text_fields_ok d"
  shows "validate_fields d partial = Inl AttributeError"
proof (cases "text_field_ok d ''title''")
  case False
  then show ?thesis
    by (simp add: validate_fields_def or_empty_strip_raises Let_def)
next
  case t: True
  show ?thesis
  proof (cases "text_field_ok d ''genre''")
    case False
    with t show ?thesis
      by (simp add: validate_fields_def or_empty_strip_raises or_empty_strip_ok Let_def)
  next
    case True
    with t assms have "\<not> text_field_ok d ''imageUrl''"
      by (simp add: text_fields_ok_def)
    with t True show ?thesis
      by (simp add: validate_fields_def or_empty_strip_raises or_empty_strip_ok Let_def)
  qed
qed

lemma validate_fields_returns:
  "text_fields_ok d \<Longrightarrow> \<exists>errs. validate_fields d partial = Inr errs"
  by (simp add: validate_fields_ok)

lemma validate_fields_verdict:
  assumes "validate_fields d partial = Inr errs"
  shows "text_fields_ok d \<and> map_of errs f = field_verdict d partial f"
proof -
  have ok: "text_fields_ok d"
    using assms validate_fields_raises [of d partial] by auto
  consider "f = ''title''" | "f = ''genre''" | "f = ''imageUrl''" | "f = ''rating''"
    | "f \<noteq> ''title''" "f \<noteq> ''genre''" "f \<noteq> ''imageUrl''" "f \<noteq> ''rating''"
    by blast
  then have "map_of errs f = field_verdict d partial f"
  proof cases
    case 1
    then show ?thesis using verdict_title [OF ok assms] by simp
  next
    case 2
    then show ?thesis using verdict_genre [OF ok assms] by simp
  next
    case 3
    then show ?thesis using verdict_imageUrl [OF ok assms] by simp
  next
    case 4
    then show ?thesis using verdict_rating [OF ok assms] by simp
  next
    case 5
    then show ?thesis using verdict_other [OF ok assms 5] by (simp add: field_verdict_def)
  qed
  with ok show ?thesis by simp
qed

lemma rating_verdict_iff:
  "rating_verdict r \<noteq> None \<longleftrightarrow>
     (\<exists>e. py_int r = Inl e) \<or> (\<exists>n. py_int r = Inr n \<and> (n < 1 \<or> 10 < n))"
  by (auto simp: rating_verdict_def split: sum.splits)

text \<open>
  C4, as the code has it. Take a payload in which \<^verbatim>\<open>rating\<close> is present. Validation
  returns its errors when each of \<^verbatim>\<open>title\<close>, \<^verbatim>\<open>genre\<close> and \<^verbatim>\<open>imageUrl\<close> is absent,
  falsy or a string, and whenever it returns them it reports an error on \<^verbatim>\<open>rating\<close>
  if and only if \<^verbatim>\<open>int\<close> raises on the value or the integer that \<^verbatim>\<open>int\<close> returns is
  outside 1..10. \<^verbatim>\<open>int\<close> truncates a finite float and turns a boolean into 0 or 1, so
  those values are not rejected as such.
\<close>

theorem validate_rating_error:
  assumes "map_of d ''rating'' = Some r"
  shows "(text_fields_ok d \<longrightarrow>
            (\<exists>errs. validate_movie_payload (JObj d) partial = Inr errs)) \<and>
         (\<forall>errs. validate_movie_payload (JObj d) partial = Inr errs \<longrightarrow>
            map_of errs ''rating'' = rating_verdict r \<and>
            (map_of errs ''rating'' \<noteq> None \<longleftrightarrow>
               (\<exists>e. py_int r = Inl e) \<or> (\<exists>n. py_int r = Inr n \<and> (n < 1 \<or> 10 < n))))"
proof (intro conjI impI allI)
  assume "text_fields_ok d"
  then show "\<exists>errs. validate_movie_payload (JObj d) partial = Inr errs"
    using validate_fields_returns [of d partial] by (simp add: validate_movie_payload_def)
next
  fix errs
  assume "validate_movie_payload (JObj d) partial = Inr errs"
  then have e: "validate_fields d partial = Inr errs"
    by (simp add: validate_movie_payload_def)
  from validate_fields_verdict [OF e, of "''rating''"] assms
  show v: "map_of errs ''rating'' = rating_verdict r"
    by (simp add: field_verdict_def)
  show "map_of errs ''rating'' \<noteq> None \<longleftrightarrow>
     (\<exists>e. py_int r = Inl e) \<or> (\<exists>n. py_int r = Inr n \<and> (n < 1 \<or> 10 < n))"
    unfolding v by (rule rating_verdict_iff)
qed

theorem validate_rating_error_witness:
  "map_of payload_rating_15 ''rating'' = Some (JInt 15) \<and> text_fields_ok payload_rating_15 \<and>
   (\<exists>errs. validate_movie_payload (JObj payload_rating_15) False = Inr errs \<and>
      map_of errs ''rating'' = Some RatingRange) \<and>
   map_of payload_rating_text ''rating'' = Some (JStr ''ten'') \<and>
   text_fields_ok payload_rating_text \<and>
   (\<exists>errs. validate_movie_payload (JObj payload_rating_text) True = Inr errs \<and>
      map_of errs ''rating'' = Some RatingNotNumber) \<and>
   map_of payload_rating_fs ''rating'' = Some (JStr [CHR 0x1C, CHR ''7'']) \<and>
   text_fields_ok payload_rating_fs \<and>
   (\<exists>errs. validate_movie_payload (JObj payload_rating_fs) True = Inr errs \<and>
      map_of errs ''rating'' = Some RatingNotNumber)"
proof -
  have a: "map_of payload_rating_15 ''rating'' = Some (JInt 15)" by code_simp
  have a': "text_fields_ok payload_rating_15" by code_simp
  have a'': "rating_verdict (JInt 15) = Some RatingRange" by code_simp
  have b: "map_of payload_rating_text ''rating'' = Some (JStr ''ten'')" by code_simp
  have b': "text_fields_ok payload_rating_text" by code_simp
  have b'': "rating_verdict (JStr ''ten'') = Some RatingNotNumber" by code_simp
  have c: "map_of payload_rating_fs ''rating'' = Some (JStr [CHR 0x1C, CHR ''7''])"
    by code_simp
  have c': "text_fields_ok payload_rating_fs" by code_simp
  have c'': "rating_verdict (JStr [CHR 0x1C, CHR ''7'']) = Some RatingNotNumber" by code_simp
  from validate_rating_error [OF a, of False] a' a''
  have 1: "\<exists>errs. validate_movie_payload (JObj payload_rating_15) False = Inr errs \<and>
      map_of errs ''rating'' = Some RatingRange"
    by auto
  from validate_rating_error [OF b, of True] b' b''
  have 2: "\<exists>errs. validate_movie_payload (JObj payload_rating_text) True = Inr errs \<and>
      map_of errs ''rating'' = Some RatingNotNumber"
    by auto
  from validate_rating_error [OF c, of True] c' c''
  have 3: "\<exists>errs. validate_movie_payload (JObj payload_rating_fs) True = Inr errs \<and>
      map_of errs ''rating'' = Some RatingNotNumber"
    by auto
  from a a' 1 b b' 2 c c' 3 show ?thesis by simp
qed

text \<open>
  C4, as the claim states it, fails for the rating 7.5: the value is not an integer,
  and validation reports no error, in either mode.
\<close>

theorem validate_rating_counterexample:
  "map_of payload_rating_7_5 ''rating'' = Some (JFloat (Finite (15 / 2))) \<and>
   of_int (trunc_rat (15 / 2)) \<noteq> (15 / 2 :: rat) \<and>
   validate_movie_payload (JObj payload_rating_7_5) False = Inr [] \<and>
   validate_movie_payload (JObj payload_rating_7_5) True = Inr []"
  by code_simp

section \<open>Properties of create and update\<close>

lemma create_movie_keeps_store_unless_created:
  "(\<exists>md. fst (create_movie now s body) = Inr (Response 201 md)) \<or>
   snd (create_movie now s body) = s"
  by (auto simp: create_movie_def Let_def json_error_def add_commit_def
      split: sum.splits json.splits prod.splits)

lemma create_movie_rejects:
  assumes "get_json_or_empty body = JObj d"
      and "text_fields_ok d"
      and "field_verdict d False f \<noteq> None"
  shows "\<exists>errs. create_movie now s body =
           (Inr (JsonError 400 ''Validation failed'' (Some errs)), s) \<and>
           validate_movie_payload (JObj d) False = Inr errs \<and>
           (\<forall>g. map_of errs g = field_verdict d False g)"
proof -
  from assms(2) obtain errs where v: "validate_fields d False = Inr errs"
    using validate_fields_returns by blast
  have m: "map_of errs g = field_verdict d False g" for g
    using validate_fields_verdict [OF v] by simp
  with assms(3) have "map_of errs f \<noteq> None" by simp
  then have "errs \<noteq> []" by auto
  with assms(1) v have "create_movie now s body =
           (Inr (JsonError 400 ''Validation failed'' (Some errs)), s)"
    by (simp add: create_movie_def json_error_def validate_movie_payload_def)
  with m v show ?thesis by (simp add: validate_movie_payload_def)
qed

lemma create_movie_raises:
  assumes "get_json_or_empty body = JObj d" "\<not> text_fields_ok d"
  shows "create_movie now s body = (Inl AttributeError, s)"
  using assms by (simp add: create_movie_def validate_movie_payload_def validate_fields_raises)

text \<open>
  C6. Take a create request whose payload is a dict in which some field breaks its
  rule (a rating of 15, say). When each of \<^verbatim>\<open>title\<close>, \<^verbatim>\<open>genre\<close> and \<^verbatim>\<open>imageUrl\<close> is
  absent, falsy or a string, the response is status 400 with the message
  \<^verbatim>\<open>Validation failed\<close>, the details hold an entry for a field exactly when the field
  breaks its rule, and the table is as before. When one of the three is a truthy
  value that is not a string, as a title of 5, validation raises AttributeError at
  \<^verbatim>\<open>(data.get(field) or "").strip()\<close> and there is no 400 response and no details; the
  table is as before there too.
\<close>

theorem create_movie_invalid:
  assumes "get_json_or_empty body = JObj d"
      and "field_verdict d False f \<noteq> None"
  shows "(text_fields_ok d \<longrightarrow>
            (\<exists>errs. create_movie now s body =
               (Inr (JsonError 400 ''Validation failed'' (Some errs)), s) \<and>
               (\<forall>g. map_of errs g = field_verdict d False g))) \<and>
         (\<not> text_fields_ok d \<longrightarrow> create_movie now s body = (Inl AttributeError, s))"
proof (intro conjI impI)
  assume "text_fields_ok d"
  from create_movie_rejects [OF assms(1) this assms(2), of now s]
  show "\<exists>errs. create_movie now s body =
               (Inr (JsonError 400 ''Validation failed'' (Some errs)), s) \<and>
               (\<forall>g. map_of errs g = field_verdict d False g)"
    by blast
next
  assume "\<not> text_fields_ok d"
  with assms(1) show "create_movie now s body = (Inl AttributeError, s)"
    by (rule create_movie_raises)
qed

theorem create_movie_invalid_witness:
  "get_json_or_empty body_rating_15 = JObj payload_rating_15 \<and>
   field_verdict payload_rating_15 False ''rating'' = Some RatingRange \<and>
   text_fields_ok payload_rating_15 \<and>
   (\<exists>errs. create_movie 500 one_movie_store body_rating_15 =
      (Inr (JsonError 400 ''Validation failed'' (Some errs)), one_movie_store) \<and>
      map_of errs ''rating'' = Some RatingRange) \<and>
   get_json_or_empty body_title_5_rating_15 = JObj payload_title_5_rating_15 \<and>
   field_verdict payload_title_5_rating_15 False ''rating'' = Some RatingRange \<and>
   \<not> text_fields_ok payload_title_5_rating_15 \<and>
   create_movie 500 one_movie_store body_title_5_rating_15 =
     (Inl AttributeError, one_movie_store)"
proof -
  have a: "get_json_or_empty body_rating_15 = JObj payload_rating_15" by code_simp
  have b: "text_fields_ok payload_rating_15" by code_simp
  have c: "field_verdict payload_rating_15 False ''rating'' = Some RatingRange" by code_simp
  then have c': "field_verdict payload_rating_15 False ''rating'' \<noteq> None" by simp
  from create_movie_invalid [OF a c', of 500 one_movie_store] b c
  have 1: "\<exists>errs. create_movie 500 one_movie_store body_rating_15 =
      (Inr (JsonError 400 ''Validation failed'' (Some errs)), one_movie_store) \<and>
      map_of errs ''rating'' = Some RatingRange"
    by auto
  have d: "get_json_or_empty body_title_5_rating_15 = JObj payload_title_5_rating_15"
    by code_simp
  have e: "\<not> text_fields_ok payload_title_5_rating_15" by code_simp
  have f: "field_verdict payload_title_5_rating_15 False ''rating'' = Some RatingRange"
    by code_simp
  then have f': "field_verdict payload_title_5_rating_15 False ''rating'' \<noteq> None" by simp
  from create_movie_invalid [OF d f', of 500 one_movie_store] e
  have 2: "create_movie 500 one_movie_store body_title_5_rating_15 =
     (Inl AttributeError, one_movie_store)"
    by simp
  from a c b 1 d f e 2 show ?thesis by simp
qed










end
